theory Spec2Isabelle
  imports Main "HOL-Library.Sublist" "HOL-Library.AList" "HOL-Library.Monad_Syntax"
begin

section \<open>JavaScript values\<close>

text \<open>
  The detector works on untyped data: the result of \<open>JSON.parse\<close> on a tool output, the
  option bundles built from it, and the payload a form hands to \<open>onSubmit\<close>. A value is
  one of the JavaScript kinds below. A number is carried as its \<open>Number::toString\<close>
  rendering (\<open>''12''\<close>, \<open>''0.5''\<close>, \<open>''NaN''\<close>; both zeros render as \<open>''0''\<close>), which
  fixes its truthiness, its rendering in a template literal and \<open>===\<close>. An object is the
  list of its own properties in insertion order. Strings are byte strings (UTF-8).
\<close>

datatype jsv =
    JUndef
  | JNull
  | JBool bool
  | JNum string
  | JStr string
  | JArr "jsv list"
  | JObj "(string \<times> jsv) list"

text \<open>\<open>!!v\<close>\<close>

fun truthy :: "jsv \<Rightarrow> bool" where
  "truthy JUndef = False"
| "truthy JNull = False"
| "truthy (JBool b) = b"
| "truthy (JNum s) = (s \<noteq> ''0'' \<and> s \<noteq> ''NaN'')"
| "truthy (JStr s) = (s \<noteq> [])"
| "truthy (JArr xs) = True"
| "truthy (JObj al) = True"

text \<open>\<open>a || b\<close>\<close>

definition js_or :: "jsv \<Rightarrow> jsv \<Rightarrow> jsv" where
  "js_or a b = (if truthy a then a else b)"

text \<open>\<open>Array.isArray(v)\<close>\<close>

fun isArray :: "jsv \<Rightarrow> bool" where
  "isArray (JArr xs) = True"
| "isArray v = False"

text \<open>\<open>xs.join(sep)\<close> on strings already rendered.\<close>

fun join :: "string \<Rightarrow> string list \<Rightarrow> string" where
  "join sep [] = []"
| "join sep [x] = x"
| "join sep (x # y # ys) = x @ sep @ join sep (y # ys)"

text \<open>
  \<open>String(v)\<close>, the conversion a template literal applies: an array joins its elements
  with commas, \<open>null\<close> and \<open>undefined\<close> elements rendering as the empty string; a plain
  object renders as \<open>[object Object]\<close>.
\<close>

fun to_str :: "jsv \<Rightarrow> string" where
  "to_str JUndef = ''undefined''"
| "to_str JNull = ''null''"
| "to_str (JBool b) = (if b then ''true'' else ''false'')"
| "to_str (JNum s) = s"
| "to_str (JStr s) = s"
| "to_str (JArr xs) =
     join '','' (map (\<lambda>x. if x = JUndef \<or> x = JNull then [] else to_str x) xs)"
| "to_str (JObj al) = ''[object Object]''"

text \<open>
  \<open>v.k\<close> for the property names this code reads (\<open>websites\<close>, \<open>id\<close>, \<open>name\<close>, \<open>text\<close>,
  ...), none of which is a built-in member of an array, string, number or boolean:
  reading from \<open>null\<close> or \<open>undefined\<close> throws a \<open>TypeError\<close> (\<open>None\<close>), reading from an
  object gives the property or \<open>undefined\<close>, reading from anything else gives
  \<open>undefined\<close>.
\<close>

fun get_prop :: "jsv \<Rightarrow> string \<Rightarrow> jsv option" where
  "get_prop JUndef k = None"
| "get_prop JNull k = None"
| "get_prop (JObj al) k = Some (case map_of al k of None \<Rightarrow> JUndef | Some v \<Rightarrow> v)"
| "get_prop v k = Some JUndef"

text \<open>\<open>v?.k\<close>\<close>

definition get_opt :: "jsv \<Rightarrow> string \<Rightarrow> jsv" where
  "get_opt v k = (case get_prop v k of None \<Rightarrow> JUndef | Some x \<Rightarrow> x)"

text \<open>Reading a property of an object literal known to be an object.\<close>

definition field :: "(string \<times> jsv) list \<Rightarrow> string \<Rightarrow> jsv" where
  "field al k = (case map_of al k of None \<Rightarrow> JUndef | Some v \<Rightarrow> v)"

text \<open>\<open>v[0]\<close>, with the same \<open>TypeError\<close> on \<open>null\<close> and \<open>undefined\<close>.\<close>

fun index0 :: "jsv \<Rightarrow> jsv option" where
  "index0 JUndef = None"
| "index0 JNull = None"
| "index0 (JArr (x # xs)) = Some x"
| "index0 (JStr (c # cs)) = Some (JStr [c])"
| "index0 (JObj al) = Some (case map_of al ''0'' of None \<Rightarrow> JUndef | Some v \<Rightarrow> v)"
| "index0 v = Some JUndef"

text \<open>
  \<open>a === b\<close>. Primitives compare by value (\<open>NaN\<close> equals nothing); arrays and objects
  compare by reference, and the values compared here (an option built by a parser and a
  field of a submission payload) are never the same reference.
\<close>

fun strict_eq :: "jsv \<Rightarrow> jsv \<Rightarrow> bool" where
  "strict_eq JUndef JUndef = True"
| "strict_eq JNull JNull = True"
| "strict_eq (JBool a) (JBool b) = (a = b)"
| "strict_eq (JNum a) (JNum b) = (a = b \<and> a \<noteq> ''NaN'')"
| "strict_eq (JStr a) (JStr b) = (a = b)"
| "strict_eq a b = False"

subsection \<open>Strings\<close>

text \<open>\<open>s.includes(d)\<close>\<close>

fun str_includes :: "string \<Rightarrow> string \<Rightarrow> bool" where
  "str_includes [] d = (d = [])"
| "str_includes (c # cs) d = (prefix d (c # cs) \<or> str_includes cs d)"

text \<open>\<open>s.indexOf(d)\<close>, \<open>None\<close> for \<open>-1\<close>.\<close>

fun indexOf :: "string \<Rightarrow> string \<Rightarrow> nat option" where
  "indexOf [] d = (if d = [] then Some 0 else None)"
| "indexOf (c # cs) d =
     (if prefix d (c # cs) then Some 0 else map_option Suc (indexOf cs d))"

text \<open>
  White space as \<open>trim\<close> and the regular expression class \<open>\s\<close> see it: the characters
  of ECMAScript's \<open>WhiteSpace\<close> and \<open>LineTerminator\<close>, each as its UTF-8 bytes. These are
  U+0009 to U+000D, U+0020, U+00A0, U+1680, U+2000 to U+200A, U+2028, U+2029, U+202F,
  U+205F, U+3000 and U+FEFF.
\<close>

definition white_space :: "string list" where
  "white_space =
     [[CHR 0x09], [CHR 0x0A], [CHR 0x0B], [CHR 0x0C], [CHR 0x0D], [CHR 0x20],
      [CHR 0xC2, CHR 0xA0], [CHR 0xE1, CHR 0x9A, CHR 0x80]]
     @ map (\<lambda>b. [CHR 0xE2, CHR 0x80, b])
         [CHR 0x80, CHR 0x81, CHR 0x82, CHR 0x83, CHR 0x84, CHR 0x85, CHR 0x86, CHR 0x87,
          CHR 0x88, CHR 0x89, CHR 0x8A, CHR 0xA8, CHR 0xA9, CHR 0xAF]
     @ [[CHR 0xE2, CHR 0x81, CHR 0x9F], [CHR 0xE3, CHR 0x80, CHR 0x80],
        [CHR 0xEF, CHR 0xBB, CHR 0xBF]]"

text \<open>The white space character a string starts with, or ends with, if any.\<close>

definition leading_space :: "string \<Rightarrow> string option" where
  "leading_space s = List.find (\<lambda>w. prefix w s) white_space"

definition trailing_space :: "string \<Rightarrow> string option" where
  "trailing_space s = List.find (\<lambda>w. prefix (rev w) (rev s)) white_space"

text \<open>
  \<open>s.trim()\<close>: white space characters are dropped from both ends until none is left
  there. The first argument bounds the number of drops; every drop shortens the
  string, so its length is enough.
\<close>

fun drop_leading :: "nat \<Rightarrow> string \<Rightarrow> string" where
  "drop_leading 0 s = s"
| "drop_leading (Suc n) s =
     (case leading_space s of None \<Rightarrow> s | Some w \<Rightarrow> drop_leading n (drop (length w) s))"

fun drop_trailing :: "nat \<Rightarrow> string \<Rightarrow> string" where
  "drop_trailing 0 s = s"
| "drop_trailing (Suc n) s =
     (case trailing_space s of
        None \<Rightarrow> s
      | Some w \<Rightarrow> drop_trailing n (take (length s - length w) s))"

definition trim :: "string \<Rightarrow> string" where
  "trim s = drop_trailing (length s) (drop_leading (length s) s)"

text \<open>
  \<open>s.replace(/\s+/g, '_')\<close>: every maximal run of white space becomes one underscore.
  The first argument bounds the number of steps; the length of the string is enough.
\<close>

fun underscore_from :: "nat \<Rightarrow> bool \<Rightarrow> string \<Rightarrow> string" where
  "underscore_from 0 in_run s = s"
| "underscore_from (Suc n) in_run [] = []"
| "underscore_from (Suc n) in_run (c # cs) =
     (case leading_space (c # cs) of
        Some w \<Rightarrow> (if in_run then [] else ''_'')
                  @ underscore_from n True (drop (length w) (c # cs))
      | None \<Rightarrow> c # underscore_from n False cs)"

definition underscore_spaces :: "string \<Rightarrow> string" where
  "underscore_spaces s = underscore_from (length s) False s"

text \<open>Lowering the letters of the ASCII range, where \<open>toLowerCase\<close> does just that.\<close>

definition lower_char :: "char \<Rightarrow> char" where
  "lower_char c =
     (let n = (of_char c :: nat) in if 65 \<le> n \<and> n \<le> 90 then char_of (n + 32) else c)"

definition ascii_toLowerCase :: "string \<Rightarrow> string" where
  "ascii_toLowerCase s = map lower_char s"

section \<open>The host environment\<close>

text \<open>
  What the code takes from its platform and from \<open>librechat-data-provider\<close>, neither of
  which is part of the repository: \<open>JSON.parse\<close> (\<open>None\<close> when it throws), the constant
  \<open>Constants.mcp_delimiter\<close>, the rendering of \<open>Math.floor(v)\<close> in a template literal,
  the message text of the engine's \<open>TypeError\<close>, and \<open>String.prototype.toLowerCase\<close> (which
  lowers the letters of every script). The last field stands for the message
  templates of the form types other than \<open>add_crawl_config\<close>, which format dates in the
  user's locale and serialise tool responses: given the form type, the form state and
  the submitted data it yields the text, or \<open>None\<close> when building it throws.
\<close>

record env =
  JSON_parse :: "string \<Rightarrow> jsv option"
  mcp_delimiter :: string
  Math_floor :: "jsv \<Rightarrow> string"
  type_error_message :: string
  String_toLowerCase :: "string \<Rightarrow> string"
  message_text :: "string option \<Rightarrow> jsv \<Rightarrow> (string \<times> jsv) list \<Rightarrow> string option"

section \<open>Output parsers\<close>

text \<open>\<open>Array.isArray(v) && v.length > 0\<close>\<close>

fun nonempty_array :: "jsv \<Rightarrow> bool" where
  "nonempty_array (JArr (x # xs)) = True"
| "nonempty_array v = False"

text \<open>
  \<open>(v || []).map(f)\<close> with a callback that may throw: a truthy value that is no array has
  no \<open>map\<close> (nor \<open>flatMap\<close>), so the call throws.
\<close>

definition js_map :: "(jsv \<Rightarrow> jsv option) \<Rightarrow> jsv \<Rightarrow> jsv list option" where
  "js_map f v = (case js_or v (JArr []) of JArr xs \<Rightarrow> those (map f xs) | _ \<Rightarrow> None)"

text \<open>The callback \<open>x => ({k1: x.k1, ..., kn: x.kn})\<close>.\<close>

definition copy_props :: "string list \<Rightarrow> jsv \<Rightarrow> jsv option" where
  "copy_props ks x =
     (if x = JUndef \<or> x = JNull then None else Some (JObj (map (\<lambda>k. (k, get_opt x k)) ks)))"

text \<open>
  The shared first step of the crawl, outreach, site-keyword and keyword-cluster parsers:
  \<^verbatim>\<open>
  try {
    const outputArray = JSON.parse(output);
    if (Array.isArray(outputArray) && outputArray.length > 0 && outputArray[0].text) {
      parsedData = JSON.parse(outputArray[0].text);
    } else {
      parsedData = outputArray;
    }
  } catch {
    parsedData = JSON.parse(output);
  }
  \<close>
  \<open>JSON.parse\<close> converts its argument to a string first.
\<close>

definition unwrap_text_content :: "env \<Rightarrow> string \<Rightarrow> jsv option" where
  "unwrap_text_content E output =
     (case (do {
              outputArray \<leftarrow> JSON_parse E output;
              if nonempty_array outputArray then do {
                first \<leftarrow> index0 outputArray;
                t \<leftarrow> get_prop first ''text'';
                if truthy t then JSON_parse E (to_str t) else Some outputArray
              } else Some outputArray
            })
      of Some parsedData \<Rightarrow> Some parsedData
       | None \<Rightarrow> JSON_parse E output)"

text \<open>
  \<^verbatim>\<open>
  const prefilledParams: any = {};
  if (Array.isArray(parsedData.prefilled_params)) {
    parsedData.prefilled_params.forEach((param: any) => {
      prefilledParams[param.key] = param.value;
    });
  }
  \<close>
  (The key \<open>__proto__\<close>, which JavaScript treats as the prototype slot, is stored like any
  other key here.)
\<close>

fun fold_params :: "jsv list \<Rightarrow> (string \<times> jsv) list \<Rightarrow> (string \<times> jsv) list option" where
  "fold_params [] acc = Some acc"
| "fold_params (param # ps) acc = do {
     k \<leftarrow> get_prop param ''key'';
     v \<leftarrow> get_prop param ''value'';
     fold_params ps (AList.update (to_str k) v acc)
   }"

definition prefilled_params_of :: "jsv \<Rightarrow> (string \<times> jsv) list option" where
  "prefilled_params_of parsedData = do {
     pp \<leftarrow> get_prop parsedData ''prefilled_params'';
     case pp of JArr ps \<Rightarrow> fold_params ps [] | _ \<Rightarrow> Some []
   }"

subsection \<open>\<open>render_crawl_form\<close>\<close>

definition crawl_empty :: jsv where
  "crawl_empty =
     JObj [(''websites'', JArr []), (''crawlConfigs'', JArr []), (''prefilledParams'', JObj [])]"

definition crawl_website :: "jsv \<Rightarrow> jsv option" where
  "crawl_website ws = do {
     i \<leftarrow> get_prop ws ''id'';
     n \<leftarrow> get_prop ws ''name'';
     u \<leftarrow> get_prop ws ''url'';
     Some (JObj [(''id'', i), (''name'', js_or n u), (''url'', u)])
   }"

definition crawl_body :: "env \<Rightarrow> string \<Rightarrow> jsv option" where
  "crawl_body E output = do {
     parsedData \<leftarrow> unwrap_text_content E output;
     ws \<leftarrow> get_prop parsedData ''websites'';
     websites \<leftarrow> js_map crawl_website ws;
     cs \<leftarrow> get_prop parsedData ''crawl_configs'';
     crawlConfigs \<leftarrow> js_map (copy_props [''id'', ''name'', ''description'', ''created_at'']) cs;
     prefilledParams \<leftarrow> prefilled_params_of parsedData;
     Some (JObj [(''websites'', JArr websites), (''crawlConfigs'', JArr crawlConfigs),
                 (''prefilledParams'', JObj prefilledParams)])
   }"

text \<open>The outer \<open>try { ... } catch (e) { return <empty bundle> }\<close> of every parser.\<close>

definition or_else :: "jsv option \<Rightarrow> jsv \<Rightarrow> jsv" where
  "or_else body fallback = (case body of Some v \<Rightarrow> v | None \<Rightarrow> fallback)"

definition extract_crawl :: "env \<Rightarrow> string \<Rightarrow> jsv" where
  "extract_crawl E output = or_else (crawl_body E output) crawl_empty"

subsection \<open>\<open>render_add_crawl_config_form\<close>\<close>

definition add_crawl_config_empty :: jsv where
  "add_crawl_config_empty = JObj [(''prefilledParams'', JObj [])]"

text \<open>
  Here the first element is read with \<open>outputArray[0]?.text\<close>, there is no length test,
  and the inner \<open>catch\<close> falls back to \<open>{}\<close>.
\<close>

definition add_crawl_config_parsed :: "env \<Rightarrow> string \<Rightarrow> jsv" where
  "add_crawl_config_parsed E output =
     or_else (do {
        outputArray \<leftarrow> JSON_parse E output;
        if isArray outputArray \<and> truthy (get_opt (or_else (index0 outputArray) JUndef) ''text'')
        then JSON_parse E (to_str (get_opt (or_else (index0 outputArray) JUndef) ''text''))
        else Some outputArray
      }) (JObj [])"

definition add_crawl_config_body :: "env \<Rightarrow> string \<Rightarrow> jsv option" where
  "add_crawl_config_body E output = do {
     prefilledParams \<leftarrow> prefilled_params_of (add_crawl_config_parsed E output);
     Some (JObj [(''prefilledParams'', JObj prefilledParams)])
   }"

definition extract_add_crawl_config :: "env \<Rightarrow> string \<Rightarrow> jsv" where
  "extract_add_crawl_config E output =
     or_else (add_crawl_config_body E output) add_crawl_config_empty"

subsection \<open>\<open>render_custom_form\<close>\<close>

definition custom_empty :: jsv where
  "custom_empty =
     JObj [(''formFields'', JArr []), (''requestId'', JNull), (''functionToolName'', JNull)]"

text \<open>
  The first \<open>try\<close> leaves the pair \<open>(parsedData, jsonString)\<close>: either the text field of
  a content block is still to be parsed, or the output was JSON already, or (on any
  exception) nothing is parsed and \<open>jsonString\<close> is the output.
\<close>

definition custom_first :: "env \<Rightarrow> string \<Rightarrow> jsv \<times> jsv" where
  "custom_first E output =
     (case (do {
              outputArray \<leftarrow> JSON_parse E output;
              if nonempty_array outputArray then do {
                first \<leftarrow> index0 outputArray;
                t \<leftarrow> get_prop first ''text'';
                Some (if truthy t then (JUndef, t) else (outputArray, JStr output))
              } else Some (outputArray, JStr output)
            })
      of Some r \<Rightarrow> r
       | None \<Rightarrow> (JUndef, JStr output))"

definition note_marker :: string where
  "note_marker = [CHR 0x0A, CHR 0x0A] @ ''NOTE:''"

text \<open>\<open>noteIndex > 0\<close> cuts the string at the marker; a marker at index 0 stays.\<close>

definition strip_note :: "string \<Rightarrow> string" where
  "strip_note s = (case indexOf s note_marker of Some (Suc n) \<Rightarrow> take (Suc n) s | _ \<Rightarrow> s)"

text \<open>
  \<open>if (!parsedData) { ... parsedData = JSON.parse(jsonString.trim()) }\<close>. A text field that
  is not a string has no usable \<open>indexOf\<close>, \<open>substring\<close> and \<open>trim\<close>: the block throws.
\<close>

definition custom_parsed :: "env \<Rightarrow> string \<Rightarrow> jsv option" where
  "custom_parsed E output =
     (case custom_first E output of (parsedData, jsonString) \<Rightarrow>
        if truthy parsedData then Some parsedData
        else (case jsonString of
                JStr s \<Rightarrow> JSON_parse E (trim (strip_note s))
              | _ \<Rightarrow> None))"

definition custom_field :: "env \<Rightarrow> jsv \<Rightarrow> jsv option" where
  "custom_field E fld = do {
     l \<leftarrow> get_prop fld ''label'';
     ty \<leftarrow> get_prop fld ''type'';
     case l of
       JStr s \<Rightarrow>
         Some (JObj ([(''label'', l), (''type'', ty),
                      (''id'', JStr (underscore_spaces (String_toLowerCase E s)))]
                @ (if strict_eq ty (JStr ''selector'')
                   then (''options'', js_or (get_opt fld ''options'') (JArr []))
                        # (if truthy (get_opt fld ''default'')
                           then [(''default'', get_opt fld ''default'')] else [])
                   else [])))
     | _ \<Rightarrow> None
   }"

definition custom_body :: "env \<Rightarrow> string \<Rightarrow> jsv option" where
  "custom_body E output = do {
     parsedData \<leftarrow> custom_parsed E output;
     ff \<leftarrow> get_prop parsedData ''form_fields'';
     formFields \<leftarrow> js_map (custom_field E) ff;
     Some (JObj [(''formFields'', JArr formFields),
                 (''requestId'', get_opt parsedData ''request_id''),
                 (''functionToolName'', get_opt parsedData ''function_tool_name''),
                 (''submitInstructions'',
                    js_or (get_opt parsedData ''submit_instructions'') JUndef)])
   }"

definition extract_custom :: "env \<Rightarrow> string \<Rightarrow> jsv" where
  "extract_custom E output = or_else (custom_body E output) custom_empty"

subsection \<open>\<open>render_outreach_generate_form\<close>\<close>

definition outreach_empty :: jsv where
  "outreach_empty =
     JObj [(''senders'', JArr []), (''lists'', JArr []), (''campaigns'', JArr []),
           (''templates'', JArr []), (''icps'', JArr [])]"

text \<open>A sender carries its group's company name and id down with it.\<close>

definition outreach_sender :: "jsv \<Rightarrow> jsv \<Rightarrow> jsv option" where
  "outreach_sender grp sender = do {
     i \<leftarrow> get_prop sender ''id'';
     n \<leftarrow> get_prop sender ''name'';
     oc \<leftarrow> get_prop sender ''occupation'';
     cd \<leftarrow> get_prop grp ''company_details'';
     gid \<leftarrow> get_prop grp ''sender_group_id'';
     Some (JObj [(''id'', i), (''name'', n), (''occupation'', oc),
                 (''company_name'', js_or (get_opt cd ''name'') (JStr ''Unknown Company'')),
                 (''sender_group_id'', js_or gid (JStr []))])
   }"

definition outreach_group :: "jsv \<Rightarrow> jsv option" where
  "outreach_group grp = do {
     ss \<leftarrow> get_prop grp ''senders'';
     senders \<leftarrow> js_map (outreach_sender grp) ss;
     Some (JArr senders)
   }"

text \<open>\<open>flatMap\<close>: the callback's arrays, concatenated.\<close>

fun flatten :: "jsv list \<Rightarrow> jsv list" where
  "flatten [] = []"
| "flatten (JArr xs # rest) = xs @ flatten rest"
| "flatten (v # rest) = v # flatten rest"

definition outreach_list :: "jsv \<Rightarrow> jsv option" where
  "outreach_list l = do {
     i \<leftarrow> get_prop l ''id'';
     n \<leftarrow> get_prop l ''list_name'';
     c \<leftarrow> get_prop l ''leads_count'';
     Some (JObj [(''id'', i), (''list_name'', n), (''leads_count'', js_or c (JNum ''0''))])
   }"

definition outreach_body :: "env \<Rightarrow> string \<Rightarrow> jsv option" where
  "outreach_body E output = do {
     parsedData \<leftarrow> unwrap_text_content E output;
     gs \<leftarrow> get_prop parsedData ''sender_group_list'';
     groups \<leftarrow> js_map outreach_group gs;
     ls \<leftarrow> get_prop parsedData ''upload_list_list'';
     lists \<leftarrow> js_map outreach_list ls;
     cs \<leftarrow> get_prop parsedData ''campaign_list'';
     campaigns \<leftarrow> js_map (copy_props [''id'', ''name'', ''campaign_goal'', ''description'']) cs;
     ts \<leftarrow> get_prop parsedData ''email_template_list'';
     templates \<leftarrow> js_map (copy_props [''id'', ''name'', ''subject_line'', ''body'']) ts;
     is \<leftarrow> get_prop parsedData ''icp_list'';
     icps \<leftarrow> js_map (copy_props [''element_id'', ''title'', ''manual_query'',
                                   ''target_industry'', ''target_level'', ''target_dept'']) is;
     Some (JObj [(''senders'', JArr (flatten groups)), (''lists'', JArr lists),
                 (''campaigns'', JArr campaigns), (''templates'', JArr templates),
                 (''icps'', JArr icps)])
   }"

definition extract_outreach :: "env \<Rightarrow> string \<Rightarrow> jsv" where
  "extract_outreach E output = or_else (outreach_body E output) outreach_empty"

subsection \<open>\<open>email_sme_questions_form\<close>\<close>

definition fence_open :: string where
  "fence_open = ''```markdown'' @ [CHR 0x0A]"

definition fence_close :: string where
  "fence_close = CHR 0x0A # ''```''"

text \<open>\<open>s.replace(/^```markdown\n/, '').replace(/\n```$/, '')\<close>\<close>

definition strip_fences :: "string \<Rightarrow> string" where
  "strip_fences s =
     (let s1 = (if prefix fence_open s then drop (length fence_open) s else s)
      in if suffix fence_close s1 then take (length s1 - length fence_close) s1 else s1)"

text \<open>
  \<open>output.match(/```markdown\n([\s\S]+?)\n```/)\<close>: after the first opening fence, the
  shortest non-empty text that a closing fence follows.
\<close>

definition markdown_match :: "string \<Rightarrow> string option" where
  "markdown_match output =
     (case indexOf output fence_open of
        None \<Rightarrow> None
      | Some i \<Rightarrow>
          (case drop (i + length fence_open) output of
             [] \<Rightarrow> None
           | c # cs \<Rightarrow> map_option (\<lambda>j. c # take j cs) (indexOf cs fence_close)))"

text \<open>
  The inner \<open>try\<close>: the value of \<open>emailContent\<close> when the block ends, and whether it ended
  by an exception. A truthy \<open>output\<close> field that is no string is assigned first and then
  throws at \<open>replace\<close>.
\<close>

definition email_try :: "env \<Rightarrow> string \<Rightarrow> jsv \<times> bool" where
  "email_try E output =
     (case JSON_parse E output of
        None \<Rightarrow> (JStr [], True)
      | Some outerArray \<Rightarrow>
          if nonempty_array outerArray then
            (case Option.bind (index0 outerArray) (\<lambda>first. get_prop first ''text'') of
               None \<Rightarrow> (JStr [], True)
             | Some t \<Rightarrow>
                 if truthy t then
                   (case JSON_parse E (to_str t) of
                      None \<Rightarrow> (JStr [], True)
                    | Some innerArray \<Rightarrow>
                        if nonempty_array innerArray then
                          (case Option.bind (index0 innerArray) (\<lambda>first. get_prop first ''output'') of
                             None \<Rightarrow> (JStr [], True)
                           | Some out \<Rightarrow>
                               if truthy out then
                                 (case out of
                                    JStr s \<Rightarrow> (JStr (strip_fences s), False)
                                  | _ \<Rightarrow> (out, True))
                               else (JStr [], False))
                        else (JStr [], False))
                 else (JStr [], False))
          else (JStr [], False))"

definition email_content :: "env \<Rightarrow> string \<Rightarrow> jsv" where
  "email_content E output =
     (case email_try E output of
        (emailContent, False) \<Rightarrow> emailContent
      | (emailContent, True) \<Rightarrow>
          (case markdown_match output of Some m \<Rightarrow> JStr m | None \<Rightarrow> emailContent))"

definition email_submit_instructions :: string where
  "email_submit_instructions =
     ''After you submit this form, the brevo_send_email tool will be used to send the email content to the recipient you specified.''"

text \<open>
  Nothing after the inner \<open>try\<close> can throw, so the outer \<open>catch\<close> with its empty bundle is
  never taken.
\<close>

definition extract_email_sme :: "env \<Rightarrow> string \<Rightarrow> jsv" where
  "extract_email_sme E output =
     JObj [(''formFields'', JArr [
              JObj [(''label'', JStr ''Recipient Email''), (''type'', JStr ''email''),
                    (''id'', JStr ''recipient_email''), (''default'', JStr [])],
              JObj [(''label'', JStr ''Email Content''), (''type'', JStr ''textarea''),
                    (''id'', JStr ''email_content''), (''default'', email_content E output),
                    (''rows'', JNum ''15'')]]),
           (''requestId'', JNull),
           (''functionToolName'', JStr ''email_sme_questions_form''),
           (''submitInstructions'', JStr email_submit_instructions)]"

subsection \<open>\<open>render_load_site_keyword_data_form\<close>\<close>

definition site_keyword_empty :: jsv where
  "site_keyword_empty =
     JObj [(''serviceAccounts'', JArr []), (''websites'', JArr []), (''keywordSources'', JArr [])]"

definition site_keyword_body :: "env \<Rightarrow> string \<Rightarrow> jsv option" where
  "site_keyword_body E output = do {
     parsedData \<leftarrow> unwrap_text_content E output;
     sa \<leftarrow> get_prop parsedData ''service_accounts_list'';
     serviceAccounts \<leftarrow> js_map (copy_props [''id'', ''email'']) sa;
     ws \<leftarrow> get_prop parsedData ''websites_list'';
     websites \<leftarrow> js_map (copy_props [''id'', ''name'', ''url'']) ws;
     ks \<leftarrow> get_prop parsedData ''keywords_sources_list'';
     Some (JObj [(''serviceAccounts'', JArr serviceAccounts), (''websites'', JArr websites),
                 (''keywordSources'', js_or ks (JArr [JStr ''gsc'', JStr ''dataforseo'']))])
   }"

definition extract_site_keyword :: "env \<Rightarrow> string \<Rightarrow> jsv" where
  "extract_site_keyword E output = or_else (site_keyword_body E output) site_keyword_empty"

subsection \<open>\<open>render_load_keyword_cluster_form\<close>\<close>

definition keyword_cluster_empty :: jsv where
  "keyword_cluster_empty = JObj [(''websites'', JArr [])]"

definition keyword_cluster_body :: "env \<Rightarrow> string \<Rightarrow> jsv option" where
  "keyword_cluster_body E output = do {
     parsedData \<leftarrow> unwrap_text_content E output;
     ws \<leftarrow> get_prop parsedData ''websites_list'';
     websites \<leftarrow> js_map (copy_props [''id'', ''name'', ''url'']) ws;
     Some (JObj [(''websites'', JArr websites)])
   }"

definition extract_keyword_cluster :: "env \<Rightarrow> string \<Rightarrow> jsv" where
  "extract_keyword_cluster E output =
     or_else (keyword_cluster_body E output) keyword_cluster_empty"

section \<open>The tool registry\<close>

text \<open>
  \<open>MCP_TOOL_CONFIGS\<close>: seven entries, each with \<open>triggerForm: true\<close>, a form type and its
  parser. The source indexes a plain object, so \<open>MCP_TOOL_CONFIGS[name]\<close> is also truthy
  for a name the object inherits from \<open>Object.prototype\<close>; such a value has no
  \<open>triggerForm\<close> and no \<open>formType\<close>.
\<close>

definition Object_prototype_names :: "string list" where
  "Object_prototype_names =
     [''constructor'', ''__defineGetter__'', ''__defineSetter__'', ''hasOwnProperty'',
      ''__lookupGetter__'', ''__lookupSetter__'', ''isPrototypeOf'', ''propertyIsEnumerable'',
      ''toString'', ''valueOf'', ''__proto__'', ''toLocaleString'']"

datatype tool =
    Render_crawl_form
  | Render_add_crawl_config_form
  | Render_custom_form
  | Render_outreach_generate_form
  | Email_sme_questions_form
  | Render_load_site_keyword_data_form
  | Render_load_keyword_cluster_form

definition MCP_TOOL_CONFIGS :: "string \<Rightarrow> tool option" where
  "MCP_TOOL_CONFIGS =
     map_of [(''render_crawl_form'', Render_crawl_form),
             (''render_add_crawl_config_form'', Render_add_crawl_config_form),
             (''render_custom_form'', Render_custom_form),
             (''render_outreach_generate_form'', Render_outreach_generate_form),
             (''email_sme_questions_form'', Email_sme_questions_form),
             (''render_load_site_keyword_data_form'', Render_load_site_keyword_data_form),
             (''render_load_keyword_cluster_form'', Render_load_keyword_cluster_form)]"

fun triggerForm :: "tool \<Rightarrow> bool" where
  "triggerForm t = True"

fun formType_of :: "tool \<Rightarrow> string" where
  "formType_of Render_crawl_form = ''crawl''"
| "formType_of Render_add_crawl_config_form = ''add_crawl_config''"
| "formType_of Render_custom_form = ''custom''"
| "formType_of Render_outreach_generate_form = ''outreach''"
| "formType_of Email_sme_questions_form = ''custom''"
| "formType_of Render_load_site_keyword_data_form = ''site_keyword''"
| "formType_of Render_load_keyword_cluster_form = ''keyword_cluster''"

fun extractOptions :: "env \<Rightarrow> tool \<Rightarrow> string \<Rightarrow> jsv" where
  "extractOptions E Render_crawl_form = extract_crawl E"
| "extractOptions E Render_add_crawl_config_form = extract_add_crawl_config E"
| "extractOptions E Render_custom_form = extract_custom E"
| "extractOptions E Render_outreach_generate_form = extract_outreach E"
| "extractOptions E Email_sme_questions_form = extract_email_sme E"
| "extractOptions E Render_load_site_keyword_data_form = extract_site_keyword E"
| "extractOptions E Render_load_keyword_cluster_form = extract_keyword_cluster E"

section \<open>The detector\<close>

subsection \<open>Props and memoised values\<close>

text \<open>
  What one \<open>MCPToolDetector\<close> instance is given: the tool call's name (\<open>None\<close> when it is
  missing or not a string), the output (\<open>None\<close> for \<open>null\<close> or \<open>undefined\<close>), and the
  conversation and message ids of the message context.
\<close>

record props =
  tool_name :: "string option"
  tool_output :: "string option"
  conversationId :: "string option"
  messageId :: "string option"

text \<open>The first two elements of \<open>name.split(delimiter)\<close>, each with \<open>|| ''\<close>.\<close>

definition split2 :: "string \<Rightarrow> string \<Rightarrow> string \<times> string" where
  "split2 s d =
     (if d = [] then (take 1 s, take 1 (drop 1 s))
      else (case indexOf s d of
              None \<Rightarrow> (s, [])
            | Some i \<Rightarrow>
                (take i s,
                 (let r = drop (i + length d) s
                  in case indexOf r d of None \<Rightarrow> r | Some j \<Rightarrow> take j r))))"

text \<open>\<open>{ function_name, serverName, isMCPToolCall }\<close>\<close>

definition parse_tool_name :: "env \<Rightarrow> props \<Rightarrow> string \<times> string \<times> bool" where
  "parse_tool_name E p =
     (case tool_name p of
        None \<Rightarrow> ([], [], False)
      | Some n \<Rightarrow>
          if n = [] then ([], [], False)
          else if str_includes n (mcp_delimiter E)
          then (fst (split2 n (mcp_delimiter E)), snd (split2 n (mcp_delimiter E)), True)
          else (n, [], False))"

definition function_name :: "env \<Rightarrow> props \<Rightarrow> string" where
  "function_name E p = fst (parse_tool_name E p)"

definition serverName_of :: "env \<Rightarrow> props \<Rightarrow> string" where
  "serverName_of E p = fst (snd (parse_tool_name E p))"

definition isMCPToolCall :: "env \<Rightarrow> props \<Rightarrow> bool" where
  "isMCPToolCall E p = snd (snd (parse_tool_name E p))"

text \<open>
  \<open>toolConfig\<close> as a form configuration: the registry entry, \<open>None\<close> when the memoised
  value is \<open>null\<close> or an inherited member (which triggers and renders nothing).
\<close>

definition toolConfig :: "env \<Rightarrow> props \<Rightarrow> tool option" where
  "toolConfig E p =
     (if \<not> isMCPToolCall E p \<or> function_name E p = [] then None
      else MCP_TOOL_CONFIGS (function_name E p))"

text \<open>Whether the memoised \<open>toolConfig\<close> is truthy: an entry or an inherited member.\<close>

definition toolConfig_truthy :: "env \<Rightarrow> props \<Rightarrow> bool" where
  "toolConfig_truthy E p =
     (isMCPToolCall E p \<and> function_name E p \<noteq> []
      \<and> (MCP_TOOL_CONFIGS (function_name E p) \<noteq> None
         \<or> function_name E p \<in> set Object_prototype_names))"

subsection \<open>Request identity\<close>

definition request_marker :: string where
  "request_marker = ''request_id::''"

definition is_token_char :: "char \<Rightarrow> bool" where
  "is_token_char c = (c \<in> set ''abcdef0123456789-'')"

text \<open>
  \<open>output.match(/request_id::([a-f0-9-]+)/)\<close>: the leftmost position where the marker is
  followed by at least one token character; the group is the longest run of them.
\<close>

definition match_here :: "string \<Rightarrow> string option" where
  "match_here s =
     (if prefix request_marker s
      then (let t = takeWhile is_token_char (drop (length request_marker) s)
            in if t = [] then None else Some t)
      else None)"

fun request_match :: "string \<Rightarrow> string option" where
  "request_match [] = None"
| "request_match (c # cs) =
     (case match_here (c # cs) of Some t \<Rightarrow> Some t | None \<Rightarrow> request_match cs)"

definition requestId_of :: "string option \<Rightarrow> string option" where
  "requestId_of out =
     (case out of None \<Rightarrow> None | Some s \<Rightarrow> if s = [] then None else request_match s)"

text \<open>\<open>id || fallback\<close> on an optional string.\<close>

definition or_default :: "string option \<Rightarrow> string \<Rightarrow> string" where
  "or_default x d = (case x of None \<Rightarrow> d | Some s \<Rightarrow> if s = [] then d else s)"

text \<open>
  \<^verbatim>\<open>
  if (requestId) return `${conversationId || 'no-conv'}-${requestId}`;
  return `${conversationId || 'no-conv'}-${messageId || 'no-msg'}-${function_name}`;
  \<close>
\<close>

definition resolve :: "string option \<Rightarrow> string option \<Rightarrow> string option \<Rightarrow> string \<Rightarrow> string" where
  "resolve out conv msg fname =
     (case requestId_of out of
        Some rid \<Rightarrow> or_default conv ''no-conv'' @ ''-'' @ rid
      | None \<Rightarrow> or_default conv ''no-conv'' @ ''-'' @ or_default msg ''no-msg'' @ ''-'' @ fname)"

definition formId :: "env \<Rightarrow> props \<Rightarrow> string" where
  "formId E p = resolve (tool_output p) (conversationId p) (messageId p) (function_name E p)"

definition conv_key :: "props \<Rightarrow> string" where
  "conv_key p = or_default (conversationId p) ''no-conv''"

subsection \<open>The two stores\<close>

text \<open>
  A form record is a JavaScript object built by spreading; a property that was never
  set is \<open>None\<close> (\<open>JUndef\<close> for the two untyped ones). \<open>rawOutput\<close> is the property the
  source calls \<open>output\<close>.
\<close>

record form_record =
  isSubmitted :: bool
  isCancelled :: "bool option"
  toolName :: "string option"
  serverName :: "string option"
  requestId :: "string option"
  options :: jsv
  rawOutput :: "string option"
  formType :: "string option"
  submittedData :: jsv

text \<open>\<open>{ isSubmitted: false }\<close>\<close>

definition no_record :: form_record where
  "no_record =
     \<lparr>isSubmitted = False, isCancelled = None, toolName = None, serverName = None,
      requestId = None, options = JUndef, rawOutput = None, formType = None,
      submittedData = JUndef\<rparr>"

text \<open>
  The Recoil atoms \<open>submittedFormsState\<close> and \<open>isChatBlockedState\<close>, and the messages
  handed to \<open>submitMessage\<close>, oldest first.
\<close>

record world =
  submittedForms :: "string \<Rightarrow> form_record option"
  isChatBlocked :: "string \<Rightarrow> bool option"
  sent :: "string list"

text \<open>Both atoms at their defaults (\<open>{}\<close>), and nothing sent.\<close>

definition empty_world :: world where
  "empty_world = \<lparr>submittedForms = Map.empty, isChatBlocked = Map.empty, sent = []\<rparr>"

text \<open>
  The calls a handler makes, in the order it makes them. The three updates of
  \<open>submittedFormsState\<close> are the updater functions of the trigger effect, of
  \<open>handleFormSubmit\<close> and of \<open>handleFormCancel\<close>.
\<close>

datatype action =
    OpenPending string form_record
  | MarkSubmitted string jsv
  | MarkCancelled string
  | SetChatBlocked string bool
  | SubmitMessage string

text \<open>\<open>prev[formId]\<close> under a spread: a missing record contributes no property.\<close>

definition prev_record :: "world \<Rightarrow> string \<Rightarrow> form_record" where
  "prev_record w fid = (case submittedForms w fid of None \<Rightarrow> no_record | Some r \<Rightarrow> r)"

fun apply_action :: "action \<Rightarrow> world \<Rightarrow> world" where
  "apply_action (OpenPending fid r) w = w\<lparr>submittedForms := (submittedForms w)(fid \<mapsto> r)\<rparr>"
| "apply_action (MarkSubmitted fid d) w =
     w\<lparr>submittedForms := (submittedForms w)
          (fid \<mapsto> (prev_record w fid)\<lparr>isSubmitted := True, submittedData := d\<rparr>)\<rparr>"
| "apply_action (MarkCancelled fid) w =
     w\<lparr>submittedForms := (submittedForms w)
          (fid \<mapsto> (prev_record w fid)\<lparr>isSubmitted := False, isCancelled := Some True\<rparr>)\<rparr>"
| "apply_action (SetChatBlocked c b) w = w\<lparr>isChatBlocked := (isChatBlocked w)(c \<mapsto> b)\<rparr>"
| "apply_action (SubmitMessage t) w = w\<lparr>sent := sent w @ [t]\<rparr>"

definition run :: "action list \<Rightarrow> world \<Rightarrow> world" where
  "run as w = fold apply_action as w"

text \<open>\<open>submittedForms[formId] || { isSubmitted: false }\<close>\<close>

definition thisFormState :: "env \<Rightarrow> props \<Rightarrow> world \<Rightarrow> form_record" where
  "thisFormState E p w = prev_record w (formId E p)"

subsection \<open>The trigger effect\<close>

fun has_data :: "jsv \<Rightarrow> bool" where
  "has_data (JArr xs) = (xs \<noteq> [])"
| "has_data v = truthy v"

text \<open>
  \<^verbatim>\<open>
  const hasValidOptions = Array.isArray(options)
    ? options.length > 0
    : options && typeof options === 'object' && Object.keys(options).length > 0 &&
      Object.values(options).some((val: any) => (Array.isArray(val) ? val.length > 0 : !!val));
  \<close>
\<close>

fun hasValidOptions :: "jsv \<Rightarrow> bool" where
  "hasValidOptions (JArr xs) = (xs \<noteq> [])"
| "hasValidOptions (JObj al) = (al \<noteq> [] \<and> list_ex (\<lambda>kv. has_data (snd kv)) al)"
| "hasValidOptions v = False"

definition pending_record :: "env \<Rightarrow> props \<Rightarrow> tool \<Rightarrow> string \<Rightarrow> jsv \<Rightarrow> form_record" where
  "pending_record E p cfg out opts =
     \<lparr>isSubmitted = False, isCancelled = Some False,
      toolName = Some (function_name E p), serverName = Some (serverName_of E p),
      requestId = requestId_of (tool_output p), options = opts, rawOutput = Some out,
      formType = Some (formType_of cfg), submittedData = JUndef\<rparr>"

text \<open>The body of the first \<open>useEffect\<close>.\<close>

definition trigger_effect :: "env \<Rightarrow> props \<Rightarrow> action list" where
  "trigger_effect E p =
     (case toolConfig E p of
        None \<Rightarrow> []
      | Some cfg \<Rightarrow>
          if \<not> triggerForm cfg then []
          else (case tool_output p of
                  None \<Rightarrow> []
                | Some out \<Rightarrow>
                    if out = [] then []
                    else (let opts = extractOptions E cfg out
                          in if hasValidOptions opts
                             then [SetChatBlocked (conv_key p) True,
                                   OpenPending (formId E p) (pending_record E p cfg out opts)]
                             else [])))"

text \<open>
  React runs an effect's body after the first render of an instance and after every
  later render in which one of its dependencies changed. The dependencies of the
  trigger effect that can change are \<open>toolConfig\<close>, \<open>output\<close>, \<open>function_name\<close>,
  \<open>serverName\<close> and \<open>formId\<close>; \<open>prev\<close> is their value at the previous render of the same
  instance, \<open>None\<close> for an instance that has just been mounted.
\<close>

definition trigger_deps ::
  "env \<Rightarrow> props \<Rightarrow> tool option \<times> string option \<times> string \<times> string \<times> string" where
  "trigger_deps E p =
     (toolConfig E p, tool_output p, function_name E p, serverName_of E p, formId E p)"

definition trigger_on_render ::
  "(tool option \<times> string option \<times> string \<times> string \<times> string) option
     \<Rightarrow> env \<Rightarrow> props \<Rightarrow> action list" where
  "trigger_on_render prev E p =
     (if prev = Some (trigger_deps E p) then [] else trigger_effect E p)"

subsection \<open>The cleanup effect\<close>

text \<open>
  \<^verbatim>\<open>
  if (toolConfig && thisFormState && !thisFormState.isSubmitted) {
    setChatBlocked((prev) => ({ ...prev, [conversationId || 'no-conv']: false }));
  }
  \<close>
\<close>

definition cleanup_effect :: "env \<Rightarrow> props \<Rightarrow> form_record \<Rightarrow> action list" where
  "cleanup_effect E p st =
     (if toolConfig_truthy E p \<and> \<not> isSubmitted st
      then [SetChatBlocked (conv_key p) False] else [])"

subsection \<open>Cancelling\<close>

definition cancel_text :: string where
  "cancel_text =
     ''I decided not to submit the form at this time. Let'' @ [CHR 0x27]
       @ ''s continue our conversation.''"

definition handleFormCancel :: "env \<Rightarrow> props \<Rightarrow> action list" where
  "handleFormCancel E p =
     [MarkCancelled (formId E p), SubmitMessage cancel_text,
      SetChatBlocked (conv_key p) False]"

subsection \<open>What the detector renders\<close>

text \<open>
  \<open>None\<close> for \<open>return null\<close>; otherwise the form type whose component is rendered and
  whether the orange "complete the form" banner shows.
\<close>

definition render :: "env \<Rightarrow> props \<Rightarrow> world \<Rightarrow> (string \<times> bool) option" where
  "render E p w =
     (case toolConfig E p of
        None \<Rightarrow> None
      | Some cfg \<Rightarrow>
          Some (formType_of cfg,
                \<not> isSubmitted (thisFormState E p w)
                  \<and> isCancelled (thisFormState E p w) \<noteq> Some True))"

subsection \<open>Submitting\<close>

text \<open>\<open>xs?.find((x) => x.id === target)\<close>; \<open>None\<close> when the call throws.\<close>

fun find_by_id :: "jsv list \<Rightarrow> jsv \<Rightarrow> jsv option" where
  "find_by_id [] target = Some JUndef"
| "find_by_id (x # xs) target = do {
     i \<leftarrow> get_prop x ''id'';
     if strict_eq i target then Some x else find_by_id xs target
   }"

fun js_find_id :: "jsv \<Rightarrow> jsv \<Rightarrow> jsv option" where
  "js_find_id JUndef target = Some JUndef"
| "js_find_id JNull target = Some JUndef"
| "js_find_id (JArr xs) target = find_by_id xs target"
| "js_find_id v target = None"

text \<open>\<open>{ ...data, k1: v1, ..., kn: vn }\<close>\<close>

definition spread_with :: "(string \<times> jsv) list \<Rightarrow> (string \<times> jsv) list \<Rightarrow> (string \<times> jsv) list" where
  "spread_with data new = fold (\<lambda>kv. AList.update (fst kv) (snd kv)) new data"

text \<open>\<open>(thisFormState as any).options || {}\<close>\<close>

definition stored_options :: "form_record \<Rightarrow> jsv" where
  "stored_options st = js_or (options st) (JObj [])"

definition senderLabel_of :: "jsv \<Rightarrow> jsv" where
  "senderLabel_of sender =
     (if truthy sender
      then JStr (to_str (get_opt sender ''name'') @ '' (''
                 @ to_str (js_or (get_opt sender ''occupation'') (JStr ''No title''))
                 @ '') at '' @ to_str (get_opt sender ''company_name''))
      else JUndef)"

definition listLabel_of :: "env \<Rightarrow> jsv \<Rightarrow> jsv" where
  "listLabel_of E lst =
     (if truthy lst
      then JStr (to_str (get_opt lst ''list_name'') @ '' (''
                 @ Math_floor E (get_opt lst ''leads_count'') @ '' contacts)'')
      else JUndef)"

definition websiteLabel_of :: "jsv \<Rightarrow> jsv \<Rightarrow> jsv" where
  "websiteLabel_of website website_id =
     (if truthy website
      then JStr (to_str (get_opt website ''name'') @ '' ('' @ to_str (get_opt website ''url'')
                 @ '')'')
      else website_id)"

definition crawlConfigLabel_of :: "jsv \<Rightarrow> jsv \<Rightarrow> jsv" where
  "crawlConfigLabel_of crawlConfig crawl_config_id =
     (if truthy crawlConfig then get_opt crawlConfig ''name''
      else if strict_eq crawl_config_id (JStr ''default'') then JStr ''Default Configuration''
      else crawl_config_id)"

text \<open>
  \<open>submittedDataWithLabels\<close>, by form type; \<open>None\<close> when a lookup throws (before anything
  has been written or sent).
\<close>

definition submittedDataWithLabels ::
  "env \<Rightarrow> string option \<Rightarrow> form_record \<Rightarrow> (string \<times> jsv) list \<Rightarrow> (string \<times> jsv) list option" where
  "submittedDataWithLabels E ft st data =
     (if ft = Some ''outreach'' then do {
        sender \<leftarrow> js_find_id (get_opt (stored_options st) ''senders'') (field data ''sender_id'');
        lst \<leftarrow> js_find_id (get_opt (stored_options st) ''lists'') (field data ''list_id'');
        campaign \<leftarrow> js_find_id (get_opt (stored_options st) ''campaigns'')
                      (field data ''campaign_id'');
        template \<leftarrow> js_find_id (get_opt (stored_options st) ''templates'')
                      (field data ''template_id'');
        Some (spread_with data
                [(''senderLabel'', senderLabel_of sender),
                 (''listLabel'', listLabel_of E lst),
                 (''campaignLabel'', get_opt campaign ''name''),
                 (''templateLabel'', get_opt template ''name'')])
      }
      else if ft = Some ''crawl'' then do {
        website \<leftarrow> js_find_id (get_opt (stored_options st) ''websites'')
                     (field data ''website_id'');
        crawlConfig \<leftarrow> js_find_id (get_opt (stored_options st) ''crawlConfigs'')
                         (field data ''crawl_config_id'');
        Some (spread_with data
                [(''websiteLabel'', websiteLabel_of website (field data ''website_id'')),
                 (''crawlConfigLabel'',
                    crawlConfigLabel_of crawlConfig (field data ''crawl_config_id''))])
      }
      else if ft = Some ''add_crawl_config''
      then Some (spread_with data [(''fileName'', get_opt (field data ''file'') ''name'')])
      else Some data)"

text \<open>The emoji of the message templates, as their UTF-8 bytes.\<close>

definition emoji_memo :: string where
  "emoji_memo = [CHR 0xF0, CHR 0x9F, CHR 0x93, CHR 0x9D]"

definition emoji_page :: string where
  "emoji_page = [CHR 0xF0, CHR 0x9F, CHR 0x93, CHR 0x84]"

definition emoji_speech :: string where
  "emoji_speech = [CHR 0xF0, CHR 0x9F, CHR 0x92, CHR 0xAC]"

definition emoji_check :: string where
  "emoji_check = [CHR 0xE2, CHR 0x9C, CHR 0x85]"

definition emoji_clipboard :: string where
  "emoji_clipboard = [CHR 0xF0, CHR 0x9F, CHR 0x93, CHR 0x8B]"

definition emoji_cross :: string where
  "emoji_cross = [CHR 0xE2, CHR 0x9D, CHR 0x8C]"

definition emoji_warning :: string where
  "emoji_warning = [CHR 0xE2, CHR 0x9A, CHR 0xA0, CHR 0xEF, CHR 0xB8, CHR 0x8F]"

definition nl :: string where
  "nl = [CHR 0x0A]"

definition failed_status :: "string \<Rightarrow> string" where
  "failed_status err =
     nl @ nl @ emoji_cross @ '' **Status:** Failed'' @ nl @ emoji_warning @ '' **Error:** ''
       @ err"

text \<open>
  \<^verbatim>\<open>
  let resultInfo = '';
  if (data.toolResponse?.result) {
    try {
      const configData = typeof data.toolResponse.result === 'string'
        ? JSON.parse(data.toolResponse.result) : data.toolResponse.result;
      if (configData.id) { resultInfo = <created successfully, with the id>; }
    } catch (parseError) { resultInfo = <created>; }
  } else if (data.toolResponse?.error) {
    resultInfo = <failed, with the error>;
  }
  \<close>
\<close>

definition add_crawl_config_resultInfo :: "env \<Rightarrow> (string \<times> jsv) list \<Rightarrow> string" where
  "add_crawl_config_resultInfo E data =
     (let toolResponse = field data ''toolResponse'' in
      if truthy (get_opt toolResponse ''result'') then
        (case Option.bind
                (case get_opt toolResponse ''result'' of
                   JStr s \<Rightarrow> JSON_parse E s
                 | r \<Rightarrow> Some r)
                (\<lambda>configData. get_prop configData ''id'') of
           None \<Rightarrow> nl @ nl @ emoji_check @ '' **Status:** Configuration created''
         | Some i \<Rightarrow>
             if truthy i
             then nl @ nl @ emoji_check @ '' **Status:** Configuration created successfully''
                    @ nl @ emoji_clipboard @ '' **Config ID:** '' @ to_str i
             else [])
      else if truthy (get_opt toolResponse ''error'')
      then failed_status (to_str (get_opt toolResponse ''error''))
      else [])"

definition add_crawl_config_message :: "env \<Rightarrow> (string \<times> jsv) list \<Rightarrow> string" where
  "add_crawl_config_message E data =
     ''I have created the crawl configuration:'' @ nl @ nl
       @ emoji_memo @ '' **Name:** '' @ to_str (field data ''name'') @ nl
       @ emoji_page @ '' **File:** ''
       @ to_str (js_or (get_opt (field data ''file'') ''name'') (JStr ''config file'')) @ nl
       @ emoji_speech @ '' **Description:** ''
       @ to_str (js_or (field data ''description'') (JStr ''Not specified''))
       @ add_crawl_config_resultInfo E data"

definition synthesize ::
  "env \<Rightarrow> string option \<Rightarrow> form_record \<Rightarrow> (string \<times> jsv) list \<Rightarrow> string option" where
  "synthesize E ft st data =
     (if ft = Some ''add_crawl_config'' then Some (add_crawl_config_message E data)
      else message_text E ft (options st) data)"

text \<open>
  \<open>handleFormSubmit\<close>: the labelled data, then \<open>setSubmittedForms\<close>, then the message,
  \<open>await submitMessage\<close>, and \<open>setChatBlocked\<close>. An exception ends the handler where it
  is thrown.
\<close>

definition handleFormSubmit ::
  "env \<Rightarrow> props \<Rightarrow> form_record \<Rightarrow> (string \<times> jsv) list \<Rightarrow> action list" where
  "handleFormSubmit E p st data =
     (let ft = map_option formType_of (toolConfig E p) in
      case submittedDataWithLabels E ft st data of
        None \<Rightarrow> []
      | Some labelled \<Rightarrow>
          MarkSubmitted (formId E p) (JObj labelled)
            # (case synthesize E ft st data of
                 None \<Rightarrow> []
               | Some message \<Rightarrow>
                   [SubmitMessage message, SetChatBlocked (conv_key p) False]))"

section \<open>The two-phase upload of \<open>AddCrawlConfigForm\<close>\<close>

text \<open>
  What a \<open>catch (error)\<close> receives: an \<open>Error\<close> with its message, or a value that is not an
  instance of \<open>Error\<close>.
\<close>

datatype thrown = Error string | NonError

text \<open>
  An HTTP response as the handler reads it: \<open>ok\<close>, the status code in decimal, and what
  \<open>text()\<close> and \<open>json()\<close> resolve to (\<open>Inl\<close> when the promise rejects).
\<close>

record response =
  ok :: bool
  status :: string
  body_text :: "thrown + string"
  body_json :: "thrown + jsv"

text \<open>
  The outcome of each of the three \<open>fetch\<close> calls, should the handler make it (\<open>Inl\<close>
  when \<open>fetch\<close> itself rejects).
\<close>

record network =
  create_call :: "thrown + response"
  upload_call :: "thrown + response"
  delete_call :: "thrown + response"

text \<open>
  The calls \<open>handleSubmit\<close> makes: the three requests (tool id and JSON body, or the
  upload URL) and \<open>onSubmit\<close> with its payload. The local \<open>useState\<close> setters for the
  progress display are left out.
\<close>

datatype form_action =
    FetchCreate string jsv
  | FetchPut string
  | FetchDelete string jsv
  | OnSubmit "(string \<times> jsv) list"

text \<open>
  Step 1 after the request has been sent: the value of \<open>configId\<close> when the step ends,
  and either the exception that ended it or \<open>configData\<close> with the upload URL.
\<close>

definition create_step :: "env \<Rightarrow> network \<Rightarrow> jsv \<times> (thrown + jsv \<times> jsv)" where
  "create_step E net =
     (case create_call net of
        Inl e \<Rightarrow> (JNull, Inl e)
      | Inr createResponse \<Rightarrow>
          if \<not> ok createResponse then
            (case body_text createResponse of
               Inl e \<Rightarrow> (JNull, Inl e)
             | Inr errorText \<Rightarrow>
                 (JNull, Inl (Error (''Failed to create config: '' @ status createResponse
                                      @ '' - '' @ errorText))))
          else
            (case body_json createResponse of
               Inl e \<Rightarrow> (JNull, Inl e)
             | Inr result \<Rightarrow>
                 (case get_prop result ''result'' of
                    None \<Rightarrow> (JNull, Inl (Error (type_error_message E)))
                  | Some rr \<Rightarrow>
                      (case (if truthy rr
                             then (case rr of
                                     JStr s \<Rightarrow>
                                       (case JSON_parse E s of
                                          None \<Rightarrow>
                                            Inl (Error (''Failed to parse server response: ''
                                                        @ take 100 s))
                                        | Some v \<Rightarrow> Inr v)
                                   | _ \<Rightarrow> Inr rr)
                             else Inr result) of
                         Inl e \<Rightarrow> (JNull, Inl e)
                       | Inr configData \<Rightarrow>
                           (case get_prop configData ''id'' of
                              None \<Rightarrow> (JNull, Inl (Error (type_error_message E)))
                            | Some configId \<Rightarrow>
                                (let uploadUrl = js_or (get_opt configData ''upload_url'')
                                                       (get_opt configData ''uploadUrl'')
                                 in if \<not> truthy uploadUrl
                                    then (configId, Inl (Error
                                      ''No upload URL received from server. The config may have been created but file upload cannot proceed.''))
                                    else (configId, Inr (configData, uploadUrl))))))))"

text \<open>Step 2 after the \<open>PUT\<close> has been sent: the exception that ends it, if any.\<close>

definition upload_step :: "network \<Rightarrow> thrown option" where
  "upload_step net =
     (case upload_call net of
        Inl e \<Rightarrow> Some e
      | Inr uploadResponse \<Rightarrow>
          if \<not> ok uploadResponse
          then Some (Error (''Upload failed: '' @ status uploadResponse @ '' - ''
                            @ (case body_text uploadResponse of
                                 Inl e \<Rightarrow> ''Unable to read error response''
                               | Inr errorText \<Rightarrow> errorText)))
          else None)"

text \<open>\<open>error instanceof Error ? error.message : 'Unknown error'\<close>\<close>

fun error_text :: "thrown \<Rightarrow> string" where
  "error_text (Error m) = m"
| "error_text NonError = ''Unknown error''"

text \<open>\<open>{ ...formData, file, toolResponse }\<close>\<close>

definition payload :: "string \<Rightarrow> string \<Rightarrow> string \<Rightarrow> jsv \<Rightarrow> (string \<times> jsv) list" where
  "payload name description fileName toolResponse =
     [(''name'', JStr name), (''description'', JStr description),
      (''file'', JObj [(''name'', JStr fileName)]), (''toolResponse'', toolResponse)]"

text \<open>
  The \<open>catch\<close> block: the clean-up request when \<open>configId\<close> is set (its own failure is
  caught and logged, whatever \<open>delete_call\<close> is), then \<open>onSubmit\<close> with the error.
\<close>

definition on_error ::
  "string \<Rightarrow> string \<Rightarrow> string \<Rightarrow> string \<Rightarrow> jsv \<Rightarrow> thrown \<Rightarrow> form_action list" where
  "on_error srv name description fileName configId e =
     (if truthy configId
      then [FetchDelete (''delete_crawl_config_mcp_'' @ srv) (JObj [(''id'', configId)])]
      else [])
     @ [OnSubmit (payload name description fileName (JObj [(''error'', JStr (error_text e))]))]"

text \<open>
  \<open>handleSubmit\<close>, from the server name, the form's name and description and the chosen
  file's name (\<open>None\<close> when no file is chosen).
\<close>

definition handleSubmit ::
  "env \<Rightarrow> network \<Rightarrow> string \<Rightarrow> string \<Rightarrow> string \<Rightarrow> string option \<Rightarrow> form_action list" where
  "handleSubmit E net srv name description file =
     (case file of
        None \<Rightarrow> []
      | Some fileName \<Rightarrow>
          if name = [] then []
          else
            FetchCreate (''create_crawl_config_mcp_'' @ srv)
              (JObj [(''name'', JStr name),
                     (''description'', js_or (JStr description) JUndef)])
            # (case create_step E net of
                 (configId, Inl e) \<Rightarrow> on_error srv name description fileName configId e
               | (configId, Inr (configData, uploadUrl)) \<Rightarrow>
                   FetchPut (to_str uploadUrl)
                   # (case upload_step net of
                        Some e \<Rightarrow> on_error srv name description fileName configId e
                      | None \<Rightarrow>
                          [OnSubmit (payload name description fileName
                                       (JObj [(''result'', configData)]))])))"

text \<open>
  The detector passes \<open>handleFormSubmit\<close> as \<open>onSubmit\<close>: what the detector does for the
  calls of one \<open>handleSubmit\<close>.
\<close>

fun detector_actions :: "env \<Rightarrow> props \<Rightarrow> form_record \<Rightarrow> form_action list \<Rightarrow> action list" where
  "detector_actions E p st [] = []"
| "detector_actions E p st (OnSubmit data # rest) =
     handleFormSubmit E p st data @ detector_actions E p st rest"
| "detector_actions E p st (a # rest) = detector_actions E p st rest"

section \<open>One mounted detector\<close>

text \<open>
  React compares the dependencies of an effect by identity. \<open>thisFormState\<close> is an
  object: the record stored under the form id, which every update of that id replaces
  by a new object, or the \<open>{ isSubmitted: false }\<close> that the memo builds anew whenever the
  store or the form id has changed. A page is the two stores together with what fixes
  these identities: the number of updates of \<open>submittedFormsState\<close> so far and, for every
  form id, the update that stored its present record.
\<close>

record page =
  stores :: world
  writes :: nat
  written_at :: "string \<Rightarrow> nat"

definition empty_page :: page where
  "empty_page = \<lparr>stores = empty_world, writes = 0, written_at = (\<lambda>fid. 0)\<rparr>"

text \<open>The form id whose record a call replaces.\<close>

fun store_write :: "action \<Rightarrow> string option" where
  "store_write (OpenPending fid r) = Some fid"
| "store_write (MarkSubmitted fid d) = Some fid"
| "store_write (MarkCancelled fid) = Some fid"
| "store_write a = None"

definition page_action :: "action \<Rightarrow> page \<Rightarrow> page" where
  "page_action a pg =
     (case store_write a of
        None \<Rightarrow> pg\<lparr>stores := apply_action a (stores pg)\<rparr>
      | Some fid \<Rightarrow>
          \<lparr>stores = apply_action a (stores pg), writes = Suc (writes pg),
           written_at = (written_at pg)(fid := Suc (writes pg))\<rparr>)"

definition run_page :: "action list \<Rightarrow> page \<Rightarrow> page" where
  "run_page as pg = fold page_action as pg"

datatype state_ref = Stored string nat | Fresh string nat

definition thisFormState_ref :: "env \<Rightarrow> props \<Rightarrow> page \<Rightarrow> state_ref" where
  "thisFormState_ref E p pg =
     (case submittedForms (stores pg) (formId E p) of
        Some r \<Rightarrow> Stored (formId E p) (written_at pg (formId E p))
      | None \<Rightarrow> Fresh (formId E p) (writes pg))"

text \<open>
  The dependencies of the cleanup effect that can change: \<open>conversationId\<close>, \<open>toolConfig\<close>
  (\<open>null\<close>, or the member of \<open>MCP_TOOL_CONFIGS\<close> under the function name) and
  \<open>thisFormState\<close>.
\<close>

definition cleanup_deps ::
  "env \<Rightarrow> props \<Rightarrow> page \<Rightarrow> string option \<times> string option \<times> state_ref" where
  "cleanup_deps E p pg =
     (conversationId p,
      (if toolConfig_truthy E p then Some (function_name E p) else None),
      thisFormState_ref E p pg)"

text \<open>
  What a mounted instance keeps between renders: the dependencies the trigger effect
  last ran with, and the dependencies and the closure (props and \<open>thisFormState\<close>) of the
  cleanup function that the second effect last returned.
\<close>

record detector =
  trigger_prev ::
    "(tool option \<times> string option \<times> string \<times> string \<times> string) option"
  cleanup_prev ::
    "((string option \<times> string option \<times> state_ref) \<times> props \<times> form_record) option"

definition fresh_instance :: detector where
  "fresh_instance = \<lparr>trigger_prev = None, cleanup_prev = None\<rparr>"

text \<open>The cleanup functions a commit runs: that of the second effect, if its dependencies changed.\<close>

definition stale_cleanup :: "env \<Rightarrow> props \<Rightarrow> detector \<Rightarrow> page \<Rightarrow> action list" where
  "stale_cleanup E p inst pg =
     (case cleanup_prev inst of
        None \<Rightarrow> []
      | Some (d, p0, st0) \<Rightarrow> if d = cleanup_deps E p pg then [] else cleanup_effect E p0 st0)"

text \<open>
  One render of the instance with props \<open>p\<close> on page \<open>pg\<close>, committed: React first runs the
  cleanup functions of the effects whose dependencies changed, then the bodies of those
  effects in the order of their declaration. The result is the instance as it is
  afterwards and the calls made.
\<close>

definition commit :: "env \<Rightarrow> props \<Rightarrow> detector \<Rightarrow> page \<Rightarrow> detector \<times> action list" where
  "commit E p inst pg =
     (\<lparr>trigger_prev = Some (trigger_deps E p),
       cleanup_prev =
         (case cleanup_prev inst of
            None \<Rightarrow> Some (cleanup_deps E p pg, p, thisFormState E p (stores pg))
          | Some (d, p0, st0) \<Rightarrow>
              if d = cleanup_deps E p pg then Some (d, p0, st0)
              else Some (cleanup_deps E p pg, p, thisFormState E p (stores pg)))\<rparr>,
      stale_cleanup E p inst pg @ trigger_on_render (trigger_prev inst) E p)"

text \<open>
  The instance subscribes to \<open>submittedFormsState\<close>: when the calls of a commit have
  updated it, the instance renders again. The second commit cannot update it (its
  trigger dependencies are those of the first), so two commits settle the instance.
  The result is the instance, the page and all calls made.
\<close>

definition settle :: "env \<Rightarrow> props \<Rightarrow> detector \<Rightarrow> page \<Rightarrow> detector \<times> page \<times> action list" where
  "settle E p inst pg =
     (case commit E p inst pg of
        (i1, c1) \<Rightarrow>
          if writes (run_page c1 pg) = writes pg then (i1, run_page c1 pg, c1)
          else (case commit E p i1 (run_page c1 pg) of
                  (i2, c2) \<Rightarrow> (i2, run_page c2 (run_page c1 pg), c1 @ c2)))"

text \<open>
  The user acts on a settled detector. Both handlers update the store and then suspend
  at \<open>await submitMessage(...)\<close>; while a handler is suspended React renders the
  instance for that update; the handler's remaining calls follow when the transport
  resolves, and the instance renders once more if they changed what it reads.
\<close>

fun until_await :: "action list \<Rightarrow> action list" where
  "until_await [] = []"
| "until_await (SubmitMessage t # as) = [SubmitMessage t]"
| "until_await (a # as) = a # until_await as"

fun after_await :: "action list \<Rightarrow> action list" where
  "after_await [] = []"
| "after_await (SubmitMessage t # as) = as"
| "after_await (a # as) = after_await as"

definition after_handler ::
  "env \<Rightarrow> props \<Rightarrow> detector \<Rightarrow> page \<Rightarrow> action list \<Rightarrow> detector \<times> page \<times> action list" where
  "after_handler E p inst pg h =
     (case settle E p inst (run_page (until_await h) pg) of
        (i1, pg1, c1) \<Rightarrow>
          (case settle E p i1 (run_page (after_await h) pg1) of
             (i2, pg2, c2) \<Rightarrow> (i2, pg2, until_await h @ c1 @ after_await h @ c2)))"

section \<open>A sample environment\<close>

text \<open>
  The environment of the worked examples: the delimiter \<open>_mcp_\<close> that
  \<open>librechat-data-provider\<close> exports, \<open>JSON.parse\<close> on the outputs the examples use (every
  other string the examples pass to it is one it rejects), \<open>Math.floor\<close> on non-negative
  numbers in plain decimal notation, \<open>toLowerCase\<close> on ASCII text, and no message template
  beyond the one of \<open>add_crawl_config\<close>.
\<close>

definition sample_JSON_parse :: "string \<Rightarrow> jsv option" where
  \<open>sample_JSON_parse s =
     (if s = ''{"websites":[{"id":"w1","name":"Acme","url":"acme.com"}]}''
      then Some (JObj [(''websites'',
                  JArr [JObj [(''id'', JStr ''w1''), (''name'', JStr ''Acme''),
                              (''url'', JStr ''acme.com'')]])])
      else if s = ''[]'' then Some (JArr [])
      else if s = ''{}'' then Some (JObj [])
      else if s = ''[{"type":"text","text":"not json"}]''
      then Some (JArr [JObj [(''type'', JStr ''text''), (''text'', JStr ''not json'')]])
      else None)\<close>

definition sample_env :: env where
  "sample_env =
     \<lparr>JSON_parse = sample_JSON_parse, mcp_delimiter = ''_mcp_'',
      Math_floor = (\<lambda>v. case v of JNum s \<Rightarrow> takeWhile (\<lambda>c. c \<noteq> CHR ''.'') s | _ \<Rightarrow> ''NaN''),
      type_error_message = ''Cannot read properties of null'',
      String_toLowerCase = ascii_toLowerCase,
      message_text = (\<lambda>ft opts data. None)\<rparr>"

subsection \<open>Sample inputs, worlds and observers\<close>

definition sample_props :: "string \<Rightarrow> string \<Rightarrow> props" where
  "sample_props name out =
     \<lparr>tool_name = Some name, tool_output = Some out,
      conversationId = Some ''conv1'', messageId = Some ''m1''\<rparr>"

fun is_lock_call :: "action \<Rightarrow> bool" where
  "is_lock_call (SetChatBlocked c b) = True"
| "is_lock_call a = False"


definition sample_pending :: form_record where
  "sample_pending =
     \<lparr>isSubmitted = False, isCancelled = Some False,
      toolName = Some ''render_add_crawl_config_form'', serverName = Some ''srv'',
      requestId = None, options = JObj [(''prefilledParams'', JObj [])],
      rawOutput = Some ''{}'', formType = Some ''add_crawl_config'', submittedData = JUndef\<rparr>"

definition sample_form_props :: props where
  "sample_form_props = sample_props ''render_add_crawl_config_form_mcp_srv'' ''{}''"

definition sample_pending_world :: world where
  "sample_pending_world =
     \<lparr>submittedForms = [''conv1-m1-render_add_crawl_config_form'' \<mapsto> sample_pending],
      isChatBlocked = [''conv1'' \<mapsto> True], sent = []\<rparr>"

definition sample_failed_payload :: "(string \<times> jsv) list" where
  "sample_failed_payload =
     payload ''nightly'' ''site audit'' ''nightly.seospiderconfig''
       (JObj [(''error'', JStr ''Upload failed: 500 - boom'')])"

definition sample_net :: network where
  "sample_net =
     \<lparr>create_call = Inr \<lparr>ok = True, status = ''200'', body_text = Inr [],
                          body_json = Inr (JObj [(''id'', JStr ''cfg1''),
                                                 (''upload_url'', JStr ''https://x'')])\<rparr>,
      upload_call = Inr \<lparr>ok = False, status = ''500'', body_text = Inr ''boom'',
                          body_json = Inl NonError\<rparr>,
      delete_call = Inl (Error ''Failed to fetch'')\<rparr>"

text \<open>
  The specification's empty bundle, in its words: every property is an empty list or a
  falsy scalar.
\<close>

fun empty_list_or_falsy_scalar :: "jsv \<Rightarrow> bool" where
  "empty_list_or_falsy_scalar (JArr xs) = (xs = [])"
| "empty_list_or_falsy_scalar (JObj al) = False"
| "empty_list_or_falsy_scalar v = (\<not> truthy v)"

definition sample_outreach_props :: props where
  "sample_outreach_props = sample_props ''render_outreach_generate_form_mcp_srv'' ''{}''"


fun is_object :: "jsv \<Rightarrow> bool" where
  "is_object (JObj al) = True"
| "is_object v = False"

text \<open>\<open>(x) => x.id === target\<close> on an element that is an object.\<close>

definition has_id :: "jsv \<Rightarrow> jsv \<Rightarrow> bool" where
  "has_id target x = strict_eq (get_opt x ''id'') target"

text \<open>A crawl form and an outreach form as the parsers store them.\<close>

definition sample_websites :: "jsv list" where
  "sample_websites =
     [JObj [(''id'', JStr ''w1''), (''name'', JStr ''Acme''), (''url'', JStr ''acme.com'')]]"

definition sample_crawl_bundle :: "(string \<times> jsv) list" where
  "sample_crawl_bundle =
     [(''websites'', JArr sample_websites), (''crawlConfigs'', JArr []),
      (''prefilledParams'', JObj [])]"

definition sample_crawl_state :: form_record where
  "sample_crawl_state = no_record\<lparr>isCancelled := Some False, options := JObj sample_crawl_bundle\<rparr>"

definition sample_senders :: "jsv list" where
  "sample_senders =
     [JObj [(''id'', JStr ''s1''), (''name'', JStr ''Ann''), (''occupation'', JStr ''CEO''),
            (''company_name'', JStr ''Acme''), (''sender_group_id'', JStr ''g1'')]]"

definition sample_outreach_bundle :: "(string \<times> jsv) list" where
  "sample_outreach_bundle =
     [(''senders'', JArr sample_senders), (''lists'', JArr []), (''campaigns'', JArr []),
      (''templates'', JArr []), (''icps'', JArr [])]"

definition sample_outreach_state :: form_record where
  "sample_outreach_state =
     no_record\<lparr>isCancelled := Some False, options := JObj sample_outreach_bundle\<rparr>"

text \<open>The episode of the upload form in conversation \<open>conv1\<close>: mounted, then cancelled.\<close>

definition upload_mounted :: "detector \<times> page \<times> action list" where
  "upload_mounted = settle sample_env sample_form_props fresh_instance empty_page"

definition upload_cancelled :: "detector \<times> page \<times> action list" where
  "upload_cancelled =
     after_handler sample_env sample_form_props (fst upload_mounted) (fst (snd upload_mounted))
       (handleFormCancel sample_env sample_form_props)"



text \<open>
  The page when the cancel handler is suspended, the instance settled on it, and a
  later page: the handler has released the lock and another form's record has been
  updated.
\<close>

definition upload_cancel_page :: page where
  "upload_cancel_page =
     run_page (until_await (handleFormCancel sample_env sample_form_props))
       (fst (snd upload_mounted))"

definition upload_cancel_settled :: "detector \<times> page \<times> action list" where
  "upload_cancel_settled =
     settle sample_env sample_form_props (fst upload_mounted) upload_cancel_page"



text \<open>The cleanup dependencies of the upload detector when its record was stored by update \<open>n\<close>.\<close>

definition upload_deps :: "nat \<Rightarrow> string option \<times> string option \<times> state_ref" where
  "upload_deps n =
     (conversationId sample_form_props,
      (if toolConfig_truthy sample_env sample_form_props
       then Some (function_name sample_env sample_form_props) else None),
      Stored (formId sample_env sample_form_props) n)"

text \<open>The upload form's record once cancelled, and once submitted.\<close>

definition upload_cancelled_record :: form_record where
  "upload_cancelled_record = sample_pending\<lparr>isSubmitted := False, isCancelled := Some True\<rparr>"


text \<open>The created configuration has the id 0, and the \<open>PUT\<close> answers 500.\<close>

definition sample_net_zero_id :: network where
  "sample_net_zero_id =
     sample_net\<lparr>create_call :=
       Inr \<lparr>ok = True, status = ''200'', body_text = Inr [],
            body_json = Inr (JObj [(''id'', JNum ''0''), (''upload_url'', JStr ''https://x'')])\<rparr>\<rparr>"

text \<open>The \<open>PUT\<close> is rejected with an \<open>Error\<close> whose message is empty.\<close>

definition sample_net_silent :: network where
  "sample_net_silent = sample_net\<lparr>upload_call := Inl (Error [])\<rparr>"


section \<open>Properties of the request identity\<close>












section \<open>Properties of the detector and of the upload form\<close>

lemma str_includes_sublist: "str_includes s d = sublist d s"
  by (induction s) (simp_all add: sublist_Cons_right)

lemma configured_truthy: "toolConfig E p = Some cfg \<Longrightarrow> toolConfig_truthy E p"
  by (auto simp: toolConfig_def toolConfig_truthy_def split: if_splits)

lemma run_Nil: "run [] w = w"
  by (simp add: run_def)

lemma run_Cons: "run (a # as) w = run as (apply_action a w)"
  by (simp add: run_def)

text \<open>
  C10. A tool call whose name does not contain the MCP delimiter resolves no form
  configuration, even when the bare name is a configured function name: the detector
  renders nothing, the trigger effect (on any render) leaves both stores unchanged, and
  the cleanup effect does not touch the blocked flag either.
\<close>

theorem no_delimiter_no_form:
  assumes "tool_name p = Some n" and "\<not> sublist (mcp_delimiter E) n"
  shows "toolConfig E p = None \<and> render E p w = None \<and> trigger_effect E p = []
         \<and> run (trigger_on_render prev E p) w = w \<and> cleanup_effect E p st = []"
proof -
  have "\<not> str_includes n (mcp_delimiter E)"
    using assms(2) by (simp add: str_includes_sublist)
  then have "\<not> isMCPToolCall E p"
    using assms(1) by (simp add: isMCPToolCall_def parse_tool_name_def)
  then have c: "toolConfig E p = None" and t: "\<not> toolConfig_truthy E p"
    by (simp_all add: toolConfig_def toolConfig_truthy_def)
  then show ?thesis
    by (simp add: render_def trigger_effect_def trigger_on_render_def cleanup_effect_def run_Nil)
qed

text \<open>The bare name \<open>render_crawl_form\<close>, a key of the registry, with no delimiter.\<close>

theorem no_delimiter_no_form_witness:
  "tool_name (sample_props ''render_crawl_form'' ''[]'') = Some ''render_crawl_form''
   \<and> \<not> sublist (mcp_delimiter sample_env) ''render_crawl_form''
   \<and> MCP_TOOL_CONFIGS ''render_crawl_form'' = Some Render_crawl_form
   \<and> toolConfig sample_env (sample_props ''render_crawl_form'' ''[]'') = None
   \<and> render sample_env (sample_props ''render_crawl_form'' ''[]'') empty_world = None
   \<and> trigger_effect sample_env (sample_props ''render_crawl_form'' ''[]'') = []"
proof -
  have h1: "tool_name (sample_props ''render_crawl_form'' ''[]'') = Some ''render_crawl_form''"
    by (simp add: sample_props_def)
  have h2: "\<not> sublist (mcp_delimiter sample_env) ''render_crawl_form''"
    by (simp add: sample_env_def sublist_code)
  have h3: "MCP_TOOL_CONFIGS ''render_crawl_form'' = Some Render_crawl_form"
    by (simp add: MCP_TOOL_CONFIGS_def)
  show ?thesis
    using h1 h2 h3 no_delimiter_no_form [OF h1 h2, of empty_world None no_record] by simp
qed

lemma sample_toolConfig:
  "toolConfig sample_env sample_form_props = Some Render_add_crawl_config_form"
  by code_simp

lemma sample_formId:
  "formId sample_env sample_form_props = ''conv1-m1-render_add_crawl_config_form''"
  by code_simp

lemma sample_conv_key: "conv_key sample_form_props = ''conv1''"
  by code_simp

lemma sample_trigger_reaches_pending:
  "submittedForms (run (trigger_effect sample_env sample_form_props) empty_world)
     ''conv1-m1-render_add_crawl_config_form'' = Some sample_pending
   \<and> isChatBlocked (run (trigger_effect sample_env sample_form_props) empty_world) ''conv1''
       = Some True"
  by code_simp

text \<open>
  C9. When the instance that owns a still pending record is torn down, its cleanup sets
  the conversation's blocked flag to false and leaves the store of form records (the
  pending record included) and the sent messages as they were.
\<close>

theorem unmount_while_pending:
  assumes "toolConfig E p = Some cfg"
    and "submittedForms w (formId E p) = Some r"
    and "\<not> isSubmitted r" and "isCancelled r \<noteq> Some True"
  shows "isChatBlocked (run (cleanup_effect E p (thisFormState E p w)) w) (conv_key p) = Some False
         \<and> submittedForms (run (cleanup_effect E p (thisFormState E p w)) w) = submittedForms w
         \<and> sent (run (cleanup_effect E p (thisFormState E p w)) w) = sent w"
proof -
  have "thisFormState E p w = r"
    using assms(2) by (simp add: thisFormState_def prev_record_def)
  moreover have "toolConfig_truthy E p"
    using assms(1) by (rule configured_truthy)
  ultimately have "cleanup_effect E p (thisFormState E p w) = [SetChatBlocked (conv_key p) False]"
    using assms(3) by (simp add: cleanup_effect_def)
  then show ?thesis by (simp add: run_Cons run_Nil)
qed

text \<open>The pending upload form of conversation \<open>conv1\<close>, torn down.\<close>

theorem unmount_while_pending_witness:
  "toolConfig sample_env sample_form_props = Some Render_add_crawl_config_form
   \<and> submittedForms sample_pending_world (formId sample_env sample_form_props) = Some sample_pending
   \<and> \<not> isSubmitted sample_pending \<and> isCancelled sample_pending \<noteq> Some True
   \<and> isChatBlocked sample_pending_world ''conv1'' = Some True
   \<and> isChatBlocked (run (cleanup_effect sample_env sample_form_props
                            (thisFormState sample_env sample_form_props sample_pending_world))
                       sample_pending_world) ''conv1'' = Some False
   \<and> submittedForms (run (cleanup_effect sample_env sample_form_props
                            (thisFormState sample_env sample_form_props sample_pending_world))
                       sample_pending_world) (formId sample_env sample_form_props)
       = Some sample_pending"
proof -
  have h1: "toolConfig sample_env sample_form_props = Some Render_add_crawl_config_form"
    by (rule sample_toolConfig)
  have h2: "submittedForms sample_pending_world (formId sample_env sample_form_props)
              = Some sample_pending"
    by (simp add: sample_formId sample_pending_world_def)
  have h3: "\<not> isSubmitted sample_pending" and h4: "isCancelled sample_pending \<noteq> Some True"
    by (simp_all add: sample_pending_def)
  have h5: "isChatBlocked sample_pending_world ''conv1'' = Some True"
    by (simp add: sample_pending_world_def)
  show ?thesis
    using h1 h2 h3 h4 h5 unmount_while_pending [OF h1 h2 h3 h4]
    by (simp add: sample_conv_key)
qed

text \<open>
  C7. Whenever \<open>handleFormSubmit\<close> dispatches a message, the calls it has made before
  that have already stored the record as submitted, with the labelled data as its
  \<open>submittedData\<close>, and no message has left yet.
\<close>

theorem submitted_before_dispatch:
  assumes "i < length (handleFormSubmit E p st data)"
    and "handleFormSubmit E p st data ! i = SubmitMessage m"
  shows "\<exists>labelled r.
           submittedDataWithLabels E (map_option formType_of (toolConfig E p)) st data
             = Some labelled
           \<and> submittedForms (run (take i (handleFormSubmit E p st data)) w) (formId E p) = Some r
           \<and> isSubmitted r \<and> submittedData r = JObj labelled
           \<and> sent (run (take i (handleFormSubmit E p st data)) w) = sent w"
proof (cases "submittedDataWithLabels E (map_option formType_of (toolConfig E p)) st data")
  case None
  then have "handleFormSubmit E p st data = []" by (simp add: handleFormSubmit_def)
  with assms(1) show ?thesis by simp
next
  case (Some labelled)
  show ?thesis
  proof (cases "synthesize E (map_option formType_of (toolConfig E p)) st data")
    case None
    then have eq: "handleFormSubmit E p st data = [MarkSubmitted (formId E p) (JObj labelled)]"
      using Some by (simp add: handleFormSubmit_def)
    from assms show ?thesis unfolding eq by simp
  next
    case (Some message)
    then have eq: "handleFormSubmit E p st data
        = [MarkSubmitted (formId E p) (JObj labelled), SubmitMessage message,
           SetChatBlocked (conv_key p) False]"
      using \<open>submittedDataWithLabels E (map_option formType_of (toolConfig E p)) st data
               = Some labelled\<close>
      by (simp add: handleFormSubmit_def)
    from assms have "i = 1" unfolding eq by (auto simp: nth_Cons' split: if_splits)
    then show ?thesis
      using \<open>submittedDataWithLabels E (map_option formType_of (toolConfig E p)) st data
               = Some labelled\<close>
      unfolding eq by (simp add: run_Cons run_Nil)
  qed
qed

text \<open>The upload form submitted with a failed upload: the message is the second call.\<close>

theorem submitted_before_dispatch_witness:
  "1 < length (handleFormSubmit sample_env sample_form_props sample_pending sample_failed_payload)
   \<and> handleFormSubmit sample_env sample_form_props sample_pending sample_failed_payload ! 1
       = SubmitMessage (add_crawl_config_message sample_env sample_failed_payload)
   \<and> isSubmitted (the (submittedForms
         (run (take 1 (handleFormSubmit sample_env sample_form_props sample_pending
                         sample_failed_payload)) sample_pending_world)
         (formId sample_env sample_form_props)))
   \<and> sent (run (take 1 (handleFormSubmit sample_env sample_form_props sample_pending
                           sample_failed_payload)) sample_pending_world) = []"
proof -
  have h1: "1 < length (handleFormSubmit sample_env sample_form_props sample_pending
                          sample_failed_payload)"
    by code_simp
  have h2: "handleFormSubmit sample_env sample_form_props sample_pending sample_failed_payload ! 1
       = SubmitMessage (add_crawl_config_message sample_env sample_failed_payload)"
    by code_simp
  have h3: "sent sample_pending_world = []"
    by (simp add: sample_pending_world_def)
  from submitted_before_dispatch [OF h1 h2, of sample_pending_world]
  obtain labelled r where
    "submittedForms (run (take 1 (handleFormSubmit sample_env sample_form_props sample_pending
        sample_failed_payload)) sample_pending_world) (formId sample_env sample_form_props) = Some r"
    and "isSubmitted r"
    and "sent (run (take 1 (handleFormSubmit sample_env sample_form_props sample_pending
        sample_failed_payload)) sample_pending_world) = sent sample_pending_world"
    by blast
  then show ?thesis using h1 h2 h3 by simp
qed

lemma create_step_delete [simp]: "create_step E (net\<lparr>delete_call := d\<rparr>) = create_step E net"
  by (simp add: create_step_def)

lemma upload_step_delete [simp]: "upload_step (net\<lparr>delete_call := d\<rparr>) = upload_step net"
  by (simp add: upload_step_def)

lemma failed_message_text:
  "add_crawl_config_message E
     [(''name'', JStr name), (''description'', JStr description),
      (''file'', JObj [(''name'', JStr fileName)]),
      (''toolResponse'', JObj [(''error'', JStr err)])]
   = ''I have created the crawl configuration:'' @ [CHR 0x0A, CHR 0x0A]
       @ [CHR 0xF0, CHR 0x9F, CHR 0x93, CHR 0x9D] @ '' **Name:** '' @ name @ [CHR 0x0A]
       @ [CHR 0xF0, CHR 0x9F, CHR 0x93, CHR 0x84] @ '' **File:** ''
       @ (if fileName = [] then ''config file'' else fileName) @ [CHR 0x0A]
       @ [CHR 0xF0, CHR 0x9F, CHR 0x92, CHR 0xAC] @ '' **Description:** ''
       @ (if description = [] then ''Not specified'' else description)
       @ (if err = [] then []
          else [CHR 0x0A, CHR 0x0A] @ [CHR 0xE2, CHR 0x9D, CHR 0x8C] @ '' **Status:** Failed''
                 @ [CHR 0x0A] @ [CHR 0xE2, CHR 0x9A, CHR 0xA0, CHR 0xEF, CHR 0xB8, CHR 0x8F]
                 @ '' **Error:** '' @ err)"
  by (simp add: add_crawl_config_message_def add_crawl_config_resultInfo_def field_def
        get_opt_def js_or_def nl_def emoji_memo_def emoji_page_def emoji_speech_def
        emoji_cross_def emoji_warning_def failed_status_def)

lemma upload_step_error_text:
  assumes "upload_step net = Some e"
  shows "(\<forall>x. upload_call net = Inl x \<longrightarrow> e = x)
    \<and> (\<forall>r. upload_call net = Inr r \<longrightarrow>
          \<not> ok r \<and>
          e = Error (''Upload failed: '' @ status r @ '' - ''
                @ (case body_text r of Inl x \<Rightarrow> ''Unable to read error response''
                   | Inr errorText \<Rightarrow> errorText)))"
  using assms by (auto simp: upload_step_def split: if_splits)

lemma handleSubmit_upload_failed:
  assumes "name \<noteq> []"
    and "create_step E net = (configId, Inr (configData, uploadUrl))"
    and "upload_step net = Some e"
  shows "handleSubmit E net srv name description (Some fileName)
            = [FetchCreate (''create_crawl_config_mcp_'' @ srv)
                 (JObj [(''name'', JStr name),
                        (''description'', if description = [] then JUndef else JStr description)]),
               FetchPut (to_str uploadUrl)]
              @ (if truthy configId
                 then [FetchDelete (''delete_crawl_config_mcp_'' @ srv) (JObj [(''id'', configId)])]
                 else [])
              @ [OnSubmit [(''name'', JStr name), (''description'', JStr description),
                           (''file'', JObj [(''name'', JStr fileName)]),
                           (''toolResponse'', JObj [(''error'', JStr (error_text e))])]]"
  using assms by (simp add: handleSubmit_def on_error_def payload_def js_or_def)

lemma detector_on_payload:
  assumes "toolConfig E p = Some Render_add_crawl_config_form"
  shows "detector_actions E p st
           (pre @ [OnSubmit [(''name'', JStr name), (''description'', JStr description),
                             (''file'', JObj [(''name'', JStr fileName)]),
                             (''toolResponse'', JObj [(''error'', JStr err)])]])
         = detector_actions E p st pre
           @ [MarkSubmitted (formId E p)
                (JObj [(''name'', JStr name), (''description'', JStr description),
                       (''file'', JObj [(''name'', JStr fileName)]),
                       (''toolResponse'', JObj [(''error'', JStr err)]),
                       (''fileName'', JStr fileName)]),
              SubmitMessage
                (add_crawl_config_message E
                   [(''name'', JStr name), (''description'', JStr description),
                    (''file'', JObj [(''name'', JStr fileName)]),
                    (''toolResponse'', JObj [(''error'', JStr err)])]),
              SetChatBlocked (conv_key p) False]"
proof (induction pre)
  case Nil
  have lab: "submittedDataWithLabels E (Some ''add_crawl_config'') st
               [(''name'', JStr name), (''description'', JStr description),
                (''file'', JObj [(''name'', JStr fileName)]),
                (''toolResponse'', JObj [(''error'', JStr err)])]
             = Some [(''name'', JStr name), (''description'', JStr description),
                     (''file'', JObj [(''name'', JStr fileName)]),
                     (''toolResponse'', JObj [(''error'', JStr err)]),
                     (''fileName'', JStr fileName)]"
    by (simp add: submittedDataWithLabels_def spread_with_def field_def get_opt_def)
  show ?case using assms by (simp add: handleFormSubmit_def lab synthesize_def)
next
  case (Cons a pre)
  then show ?case by (cases a) simp_all
qed

text \<open>
  C6 (as the code has it). Step 1 has ended with a config id and an upload URL, and
  step 2 (the \<open>PUT\<close>) fails: the request is rejected, or its response is not ok. Then
  \<open>handleSubmit\<close> makes the create request and the \<open>PUT\<close>, then the delete request for the
  id if the id is truthy, and last \<open>onSubmit\<close> with the error text, whatever the outcome
  of the delete request is. The error text is the rejection's message (\<open>Unknown error\<close>
  for a value that is no \<open>Error\<close>), or \<open>Upload failed: status - body\<close>. The detector then
  completes the submit transition: the record is marked submitted with the payload,
  the message is sent, the lock is released. The message ends with the \<open>Failed\<close> status
  line and the error text if that text is not empty, and has no status line otherwise.
\<close>

theorem upload_failure_compensation:
  assumes "name \<noteq> []"
    and "create_step E net = (configId, Inr (configData, uploadUrl))"
    and "upload_step net = Some e"
  shows "(\<forall>d. handleSubmit E (net\<lparr>delete_call := d\<rparr>) srv name description (Some fileName)
            = [FetchCreate (''create_crawl_config_mcp_'' @ srv)
                 (JObj [(''name'', JStr name),
                        (''description'', if description = [] then JUndef else JStr description)]),
               FetchPut (to_str uploadUrl)]
              @ (if truthy configId
                 then [FetchDelete (''delete_crawl_config_mcp_'' @ srv) (JObj [(''id'', configId)])]
                 else [])
              @ [OnSubmit [(''name'', JStr name), (''description'', JStr description),
                           (''file'', JObj [(''name'', JStr fileName)]),
                           (''toolResponse'', JObj [(''error'', JStr (error_text e))])]])
         \<and> (toolConfig E p = Some Render_add_crawl_config_form \<longrightarrow>
              detector_actions E p st (handleSubmit E net srv name description (Some fileName))
                = [MarkSubmitted (formId E p)
                     (JObj [(''name'', JStr name), (''description'', JStr description),
                            (''file'', JObj [(''name'', JStr fileName)]),
                            (''toolResponse'', JObj [(''error'', JStr (error_text e))]),
                            (''fileName'', JStr fileName)]),
                   SubmitMessage
                     (''I have created the crawl configuration:'' @ [CHR 0x0A, CHR 0x0A]
                        @ [CHR 0xF0, CHR 0x9F, CHR 0x93, CHR 0x9D] @ '' **Name:** '' @ name
                        @ [CHR 0x0A]
                        @ [CHR 0xF0, CHR 0x9F, CHR 0x93, CHR 0x84] @ '' **File:** ''
                        @ (if fileName = [] then ''config file'' else fileName) @ [CHR 0x0A]
                        @ [CHR 0xF0, CHR 0x9F, CHR 0x92, CHR 0xAC] @ '' **Description:** ''
                        @ (if description = [] then ''Not specified'' else description)
                        @ (if error_text e = [] then []
                           else [CHR 0x0A, CHR 0x0A] @ [CHR 0xE2, CHR 0x9D, CHR 0x8C]
                                  @ '' **Status:** Failed'' @ [CHR 0x0A]
                                  @ [CHR 0xE2, CHR 0x9A, CHR 0xA0, CHR 0xEF, CHR 0xB8, CHR 0x8F]
                                  @ '' **Error:** '' @ error_text e)),
                   SetChatBlocked (conv_key p) False])
         \<and> (\<forall>m. upload_call net = Inl (Error m) \<longrightarrow> error_text e = m)
         \<and> (upload_call net = Inl NonError \<longrightarrow> error_text e = ''Unknown error'')
         \<and> (\<forall>r. upload_call net = Inr r \<longrightarrow>
               \<not> ok r
               \<and> error_text e
                   = ''Upload failed: '' @ status r @ '' - ''
                       @ (case body_text r of Inl x \<Rightarrow> ''Unable to read error response''
                          | Inr errorText \<Rightarrow> errorText))"
proof -
  note hs = handleSubmit_upload_failed [OF assms(1) _ assms(3)]
  have c: "create_step E (net\<lparr>delete_call := d\<rparr>) = (configId, Inr (configData, uploadUrl))"
    for d using assms(2) by simp
  have u: "upload_step (net\<lparr>delete_call := d\<rparr>) = Some e" for d
    using assms(3) by simp
  note et = upload_step_error_text [OF assms(3)]
  show ?thesis
  proof (intro conjI allI impI)
    fix d
    show "handleSubmit E (net\<lparr>delete_call := d\<rparr>) srv name description (Some fileName)
            = [FetchCreate (''create_crawl_config_mcp_'' @ srv)
                 (JObj [(''name'', JStr name),
                        (''description'', if description = [] then JUndef else JStr description)]),
               FetchPut (to_str uploadUrl)]
              @ (if truthy configId
                 then [FetchDelete (''delete_crawl_config_mcp_'' @ srv) (JObj [(''id'', configId)])]
                 else [])
              @ [OnSubmit [(''name'', JStr name), (''description'', JStr description),
                           (''file'', JObj [(''name'', JStr fileName)]),
                           (''toolResponse'', JObj [(''error'', JStr (error_text e))])]]"
      by (rule handleSubmit_upload_failed [OF assms(1) c u])
  next
    assume tc: "toolConfig E p = Some Render_add_crawl_config_form"
    show "detector_actions E p st (handleSubmit E net srv name description (Some fileName))
                = [MarkSubmitted (formId E p)
                     (JObj [(''name'', JStr name), (''description'', JStr description),
                            (''file'', JObj [(''name'', JStr fileName)]),
                            (''toolResponse'', JObj [(''error'', JStr (error_text e))]),
                            (''fileName'', JStr fileName)]),
                   SubmitMessage
                     (''I have created the crawl configuration:'' @ [CHR 0x0A, CHR 0x0A]
                        @ [CHR 0xF0, CHR 0x9F, CHR 0x93, CHR 0x9D] @ '' **Name:** '' @ name
                        @ [CHR 0x0A]
                        @ [CHR 0xF0, CHR 0x9F, CHR 0x93, CHR 0x84] @ '' **File:** ''
                        @ (if fileName = [] then ''config file'' else fileName) @ [CHR 0x0A]
                        @ [CHR 0xF0, CHR 0x9F, CHR 0x92, CHR 0xAC] @ '' **Description:** ''
                        @ (if description = [] then ''Not specified'' else description)
                        @ (if error_text e = [] then []
                           else [CHR 0x0A, CHR 0x0A] @ [CHR 0xE2, CHR 0x9D, CHR 0x8C]
                                  @ '' **Status:** Failed'' @ [CHR 0x0A]
                                  @ [CHR 0xE2, CHR 0x9A, CHR 0xA0, CHR 0xEF, CHR 0xB8, CHR 0x8F]
                                  @ '' **Error:** '' @ error_text e)),
                   SetChatBlocked (conv_key p) False]"
      unfolding handleSubmit_upload_failed [OF assms] append_assoc [symmetric]
        detector_on_payload [OF tc] failed_message_text
      by simp
  next
    fix m assume "upload_call net = Inl (Error m)"
    with et show "error_text e = m" by simp
  next
    assume "upload_call net = Inl NonError"
    with et show "error_text e = ''Unknown error''" by simp
  next
    fix r assume r: "upload_call net = Inr r"
    with et show "\<not> ok r" by simp
    from r et show "error_text e
                   = ''Upload failed: '' @ status r @ '' - ''
                       @ (case body_text r of Inl x \<Rightarrow> ''Unable to read error response''
                          | Inr errorText \<Rightarrow> errorText)" by simp
  qed
qed

text \<open>
  Create answers with id \<open>cfg1\<close> and an upload URL, the \<open>PUT\<close> answers 500, and the delete
  request itself is rejected.
\<close>

theorem upload_failure_compensation_witness:
  "create_step sample_env sample_net
     = (JStr ''cfg1'', Inr (JObj [(''id'', JStr ''cfg1''), (''upload_url'', JStr ''https://x'')],
                             JStr ''https://x''))
   \<and> upload_step sample_net = Some (Error ''Upload failed: 500 - boom'')
   \<and> delete_call sample_net = Inl (Error ''Failed to fetch'')
   \<and> handleSubmit sample_env sample_net ''srv'' ''nightly'' ''site audit''
         (Some ''nightly.seospiderconfig'')
       = [FetchCreate ''create_crawl_config_mcp_srv''
            (JObj [(''name'', JStr ''nightly''), (''description'', JStr ''site audit'')]),
          FetchPut ''https://x'',
          FetchDelete ''delete_crawl_config_mcp_srv'' (JObj [(''id'', JStr ''cfg1'')]),
          OnSubmit [(''name'', JStr ''nightly''), (''description'', JStr ''site audit''),
                    (''file'', JObj [(''name'', JStr ''nightly.seospiderconfig'')]),
                    (''toolResponse'', JObj [(''error'', JStr ''Upload failed: 500 - boom'')])]]
   \<and> detector_actions sample_env sample_form_props sample_pending
         (handleSubmit sample_env sample_net ''srv'' ''nightly'' ''site audit''
            (Some ''nightly.seospiderconfig''))
       = [MarkSubmitted ''conv1-m1-render_add_crawl_config_form''
            (JObj [(''name'', JStr ''nightly''), (''description'', JStr ''site audit''),
                   (''file'', JObj [(''name'', JStr ''nightly.seospiderconfig'')]),
                   (''toolResponse'', JObj [(''error'', JStr ''Upload failed: 500 - boom'')]),
                   (''fileName'', JStr ''nightly.seospiderconfig'')]),
          SubmitMessage
            (''I have created the crawl configuration:'' @ [CHR 0x0A, CHR 0x0A]
               @ [CHR 0xF0, CHR 0x9F, CHR 0x93, CHR 0x9D] @ '' **Name:** nightly'' @ [CHR 0x0A]
               @ [CHR 0xF0, CHR 0x9F, CHR 0x93, CHR 0x84] @ '' **File:** nightly.seospiderconfig''
               @ [CHR 0x0A]
               @ [CHR 0xF0, CHR 0x9F, CHR 0x92, CHR 0xAC] @ '' **Description:** site audit''
               @ [CHR 0x0A, CHR 0x0A] @ [CHR 0xE2, CHR 0x9D, CHR 0x8C] @ '' **Status:** Failed''
               @ [CHR 0x0A] @ [CHR 0xE2, CHR 0x9A, CHR 0xA0, CHR 0xEF, CHR 0xB8, CHR 0x8F]
               @ '' **Error:** Upload failed: 500 - boom''),
          SetChatBlocked ''conv1'' False]"
proof -
  have h1: "''nightly'' \<noteq> []" by simp
  have h2: "create_step sample_env sample_net
     = (JStr ''cfg1'', Inr (JObj [(''id'', JStr ''cfg1''), (''upload_url'', JStr ''https://x'')],
                             JStr ''https://x''))"
    by code_simp
  have h3: "upload_step sample_net = Some (Error ''Upload failed: 500 - boom'')"
    by (simp add: upload_step_def sample_net_def)
  have h4: "delete_call sample_net = Inl (Error ''Failed to fetch'')"
    by (simp add: sample_net_def)
  have h5: "sample_net\<lparr>delete_call := Inl (Error ''Failed to fetch'')\<rparr> = sample_net"
    by (simp add: sample_net_def)
  note T = upload_failure_compensation [OF h1 h2 h3, of "''srv''" "''site audit''"
             "''nightly.seospiderconfig''" sample_form_props sample_pending]
  have a: "handleSubmit sample_env sample_net ''srv'' ''nightly'' ''site audit''
         (Some ''nightly.seospiderconfig'')
       = [FetchCreate ''create_crawl_config_mcp_srv''
            (JObj [(''name'', JStr ''nightly''), (''description'', JStr ''site audit'')]),
          FetchPut ''https://x'',
          FetchDelete ''delete_crawl_config_mcp_srv'' (JObj [(''id'', JStr ''cfg1'')]),
          OnSubmit [(''name'', JStr ''nightly''), (''description'', JStr ''site audit''),
                    (''file'', JObj [(''name'', JStr ''nightly.seospiderconfig'')]),
                    (''toolResponse'', JObj [(''error'', JStr ''Upload failed: 500 - boom'')])]]"
    using T [THEN conjunct1, THEN spec, of "Inl (Error ''Failed to fetch'')"]
    unfolding h5 by simp
  have b: "detector_actions sample_env sample_form_props sample_pending
         (handleSubmit sample_env sample_net ''srv'' ''nightly'' ''site audit''
            (Some ''nightly.seospiderconfig''))
       = [MarkSubmitted ''conv1-m1-render_add_crawl_config_form''
            (JObj [(''name'', JStr ''nightly''), (''description'', JStr ''site audit''),
                   (''file'', JObj [(''name'', JStr ''nightly.seospiderconfig'')]),
                   (''toolResponse'', JObj [(''error'', JStr ''Upload failed: 500 - boom'')]),
                   (''fileName'', JStr ''nightly.seospiderconfig'')]),
          SubmitMessage
            (''I have created the crawl configuration:'' @ [CHR 0x0A, CHR 0x0A]
               @ [CHR 0xF0, CHR 0x9F, CHR 0x93, CHR 0x9D] @ '' **Name:** nightly'' @ [CHR 0x0A]
               @ [CHR 0xF0, CHR 0x9F, CHR 0x93, CHR 0x84] @ '' **File:** nightly.seospiderconfig''
               @ [CHR 0x0A]
               @ [CHR 0xF0, CHR 0x9F, CHR 0x92, CHR 0xAC] @ '' **Description:** site audit''
               @ [CHR 0x0A, CHR 0x0A] @ [CHR 0xE2, CHR 0x9D, CHR 0x8C] @ '' **Status:** Failed''
               @ [CHR 0x0A] @ [CHR 0xE2, CHR 0x9A, CHR 0xA0, CHR 0xEF, CHR 0xB8, CHR 0x8F]
               @ '' **Error:** Upload failed: 500 - boom''),
          SetChatBlocked ''conv1'' False]"
    using T [THEN conjunct2, THEN conjunct1] sample_toolConfig
    by (simp add: sample_formId sample_conv_key)
  show ?thesis using h2 h3 h4 a b by (intro conjI)
qed

text \<open>
  Counterexample to C6 as stated. First: create answers with the id 0 and an upload URL
  and the \<open>PUT\<close> answers 500; no delete request is made for the created configuration.
  Second: the \<open>PUT\<close> is rejected with an \<open>Error\<close> whose message is empty; the message the
  detector sends has no status line.
\<close>

theorem upload_failure_counterexample:
  "create_step sample_env sample_net_zero_id
     = (JNum ''0'', Inr (JObj [(''id'', JNum ''0''), (''upload_url'', JStr ''https://x'')],
                          JStr ''https://x''))
   \<and> upload_step sample_net_zero_id = Some (Error ''Upload failed: 500 - boom'')
   \<and> handleSubmit sample_env sample_net_zero_id ''srv'' ''nightly'' ''site audit''
         (Some ''nightly.seospiderconfig'')
       = [FetchCreate ''create_crawl_config_mcp_srv''
            (JObj [(''name'', JStr ''nightly''), (''description'', JStr ''site audit'')]),
          FetchPut ''https://x'',
          OnSubmit [(''name'', JStr ''nightly''), (''description'', JStr ''site audit''),
                    (''file'', JObj [(''name'', JStr ''nightly.seospiderconfig'')]),
                    (''toolResponse'', JObj [(''error'', JStr ''Upload failed: 500 - boom'')])]]
   \<and> create_step sample_env sample_net_silent
       = (JStr ''cfg1'', Inr (JObj [(''id'', JStr ''cfg1''), (''upload_url'', JStr ''https://x'')],
                               JStr ''https://x''))
   \<and> upload_step sample_net_silent = Some (Error [])
   \<and> detector_actions sample_env sample_form_props sample_pending
         (handleSubmit sample_env sample_net_silent ''srv'' ''nightly'' ''site audit''
            (Some ''nightly.seospiderconfig''))
       = [MarkSubmitted ''conv1-m1-render_add_crawl_config_form''
            (JObj [(''name'', JStr ''nightly''), (''description'', JStr ''site audit''),
                   (''file'', JObj [(''name'', JStr ''nightly.seospiderconfig'')]),
                   (''toolResponse'', JObj [(''error'', JStr [])]),
                   (''fileName'', JStr ''nightly.seospiderconfig'')]),
          SubmitMessage
            (''I have created the crawl configuration:'' @ [CHR 0x0A, CHR 0x0A]
               @ [CHR 0xF0, CHR 0x9F, CHR 0x93, CHR 0x9D] @ '' **Name:** nightly'' @ [CHR 0x0A]
               @ [CHR 0xF0, CHR 0x9F, CHR 0x93, CHR 0x84] @ '' **File:** nightly.seospiderconfig''
               @ [CHR 0x0A]
               @ [CHR 0xF0, CHR 0x9F, CHR 0x92, CHR 0xAC] @ '' **Description:** site audit''),
          SetChatBlocked ''conv1'' False]"
proof -
  have h1: "''nightly'' \<noteq> []" by simp
  have z2: "create_step sample_env sample_net_zero_id
     = (JNum ''0'', Inr (JObj [(''id'', JNum ''0''), (''upload_url'', JStr ''https://x'')],
                          JStr ''https://x''))"
    by code_simp
  have z3: "upload_step sample_net_zero_id = Some (Error ''Upload failed: 500 - boom'')"
    by (simp add: upload_step_def sample_net_zero_id_def sample_net_def)
  have s2: "create_step sample_env sample_net_silent
       = (JStr ''cfg1'', Inr (JObj [(''id'', JStr ''cfg1''), (''upload_url'', JStr ''https://x'')],
                               JStr ''https://x''))"
    by code_simp
  have s3: "upload_step sample_net_silent = Some (Error [])"
    by (simp add: upload_step_def sample_net_silent_def sample_net_def)
  have a: "handleSubmit sample_env sample_net_zero_id ''srv'' ''nightly'' ''site audit''
         (Some ''nightly.seospiderconfig'')
       = [FetchCreate ''create_crawl_config_mcp_srv''
            (JObj [(''name'', JStr ''nightly''), (''description'', JStr ''site audit'')]),
          FetchPut ''https://x'',
          OnSubmit [(''name'', JStr ''nightly''), (''description'', JStr ''site audit''),
                    (''file'', JObj [(''name'', JStr ''nightly.seospiderconfig'')]),
                    (''toolResponse'', JObj [(''error'', JStr ''Upload failed: 500 - boom'')])]]"
    unfolding handleSubmit_upload_failed [OF h1 z2 z3] by simp
  have b: "detector_actions sample_env sample_form_props sample_pending
         (handleSubmit sample_env sample_net_silent ''srv'' ''nightly'' ''site audit''
            (Some ''nightly.seospiderconfig''))
       = [MarkSubmitted ''conv1-m1-render_add_crawl_config_form''
            (JObj [(''name'', JStr ''nightly''), (''description'', JStr ''site audit''),
                   (''file'', JObj [(''name'', JStr ''nightly.seospiderconfig'')]),
                   (''toolResponse'', JObj [(''error'', JStr [])]),
                   (''fileName'', JStr ''nightly.seospiderconfig'')]),
          SubmitMessage
            (''I have created the crawl configuration:'' @ [CHR 0x0A, CHR 0x0A]
               @ [CHR 0xF0, CHR 0x9F, CHR 0x93, CHR 0x9D] @ '' **Name:** nightly'' @ [CHR 0x0A]
               @ [CHR 0xF0, CHR 0x9F, CHR 0x93, CHR 0x84] @ '' **File:** nightly.seospiderconfig''
               @ [CHR 0x0A]
               @ [CHR 0xF0, CHR 0x9F, CHR 0x92, CHR 0xAC] @ '' **Description:** site audit''),
          SetChatBlocked ''conv1'' False]"
    unfolding handleSubmit_upload_failed [OF h1 s2 s3] append_assoc [symmetric]
      detector_on_payload [OF sample_toolConfig] failed_message_text
    by (simp add: sample_formId sample_conv_key)
  show ?thesis using z2 z3 a s2 s3 b by (intro conjI)
qed


lemma run_page_Nil: "run_page [] pg = pg"
  by (simp add: run_page_def)

lemma run_page_Cons: "run_page (a # as) pg = run_page as (page_action a pg)"
  by (simp add: run_page_def)

lemma run_page_append: "run_page (as @ bs) pg = run_page bs (run_page as pg)"
  by (simp add: run_page_def)



lemma run_page_no_write:
  "list_all (\<lambda>a. store_write a = None) as \<Longrightarrow>
   writes (run_page as pg) = writes pg \<and> written_at (run_page as pg) = written_at pg
   \<and> submittedForms (stores (run_page as pg)) = submittedForms (stores pg)"
proof (induction as arbitrary: pg)
  case Nil
  then show ?case by (simp add: run_page_Nil)
next
  case (Cons a as)
  then have a: "store_write a = None" and as: "list_all (\<lambda>a. store_write a = None) as"
    by simp_all
  have "writes (page_action a pg) = writes pg \<and> written_at (page_action a pg) = written_at pg
        \<and> submittedForms (stores (page_action a pg)) = submittedForms (stores pg)"
    using a by (cases a) (simp_all add: page_action_def)
  with Cons.IH [OF as, of "page_action a pg"] show ?case by (simp add: run_page_Cons)
qed


lemma cleanup_effect_no_write: "list_all (\<lambda>a. store_write a = None) (cleanup_effect E p st)"
  by (simp add: cleanup_effect_def)





lemma commit_idle:
  assumes "trigger_prev inst = Some (trigger_deps E p)"
    and "cleanup_prev inst = Some (cleanup_deps E p pg, p0, st0)"
  shows "commit E p inst pg = (inst, [])"
  using assms by (cases inst) (simp add: commit_def stale_cleanup_def trigger_on_render_def)









text \<open>Mounting a fresh instance when the trigger opens the form.\<close>

lemma mount_opens:
  assumes fires: "trigger_effect E p = [SetChatBlocked c True, OpenPending (formId E p) rec]"
    and wf: "written_at pg (formId E p) \<le> writes pg"
  shows "settle E p fresh_instance pg
     = (\<lparr>trigger_prev = Some (trigger_deps E p),
         cleanup_prev =
           Some (cleanup_deps E p (run_page [SetChatBlocked c True, OpenPending (formId E p) rec] pg),
                 p, rec)\<rparr>,
        run_page ([SetChatBlocked c True, OpenPending (formId E p) rec]
                    @ cleanup_effect E p (thisFormState E p (stores pg))) pg,
        [SetChatBlocked c True, OpenPending (formId E p) rec]
          @ cleanup_effect E p (thisFormState E p (stores pg)))"
proof -
  let ?t = "[SetChatBlocked c True, OpenPending (formId E p) rec]"
  let ?i1 = "\<lparr>trigger_prev = Some (trigger_deps E p),
              cleanup_prev = Some (cleanup_deps E p pg, p, thisFormState E p (stores pg))\<rparr>"
  have c1: "commit E p fresh_instance pg = (?i1, ?t)"
    by (simp add: commit_def fresh_instance_def stale_cleanup_def trigger_on_render_def fires)
  have w: "writes (run_page ?t pg) = Suc (writes pg)"
    by (simp add: run_page_def page_action_def)
  have st: "thisFormState E p (stores (run_page ?t pg)) = rec"
    by (simp add: run_page_def page_action_def thisFormState_def prev_record_def)
  have ref: "thisFormState_ref E p (run_page ?t pg) = Stored (formId E p) (Suc (writes pg))"
    by (simp add: run_page_def page_action_def thisFormState_ref_def)
  have "thisFormState_ref E p pg \<noteq> Stored (formId E p) (Suc (writes pg))"
    using wf by (simp add: thisFormState_ref_def split: option.splits)
  then have d: "cleanup_deps E p pg \<noteq> cleanup_deps E p (run_page ?t pg)"
    by (simp add: cleanup_deps_def ref)
  have c2: "commit E p ?i1 (run_page ?t pg)
     = (\<lparr>trigger_prev = Some (trigger_deps E p),
         cleanup_prev = Some (cleanup_deps E p (run_page ?t pg), p, rec)\<rparr>,
        cleanup_effect E p (thisFormState E p (stores pg)))"
    using d by (simp add: commit_def stale_cleanup_def trigger_on_render_def st)
  show ?thesis
    by (simp only: settle_def c1 c2 w prod.case run_page_append) simp
qed

text \<open>The render that follows a store update of the instance's own record.\<close>

lemma rerender_after_update:
  assumes t: "trigger_prev inst = Some (trigger_deps E p)"
    and c: "cleanup_prev inst = Some (d, p0, st0)"
    and d: "d \<noteq> cleanup_deps E p pg"
  shows "settle E p inst pg
     = (\<lparr>trigger_prev = Some (trigger_deps E p),
         cleanup_prev = Some (cleanup_deps E p pg, p, thisFormState E p (stores pg))\<rparr>,
        run_page (cleanup_effect E p0 st0) pg, cleanup_effect E p0 st0)"
proof -
  have c1: "commit E p inst pg
     = (\<lparr>trigger_prev = Some (trigger_deps E p),
         cleanup_prev = Some (cleanup_deps E p pg, p, thisFormState E p (stores pg))\<rparr>,
        cleanup_effect E p0 st0)"
    using t c d by (simp add: commit_def stale_cleanup_def trigger_on_render_def)
  have w: "writes (run_page (cleanup_effect E p0 st0) pg) = writes pg"
    using run_page_no_write [OF cleanup_effect_no_write] by simp
  show ?thesis by (simp add: settle_def c1 w)
qed


lemma settle_idle:
  assumes "trigger_prev inst = Some (trigger_deps E p)"
    and "cleanup_prev inst = Some (cleanup_deps E p pg, p0, st0)"
  shows "settle E p inst pg = (inst, pg, [])"
  by (simp add: settle_def commit_idle [OF assms] run_page_Nil)

lemma upload_fires:
  "trigger_effect sample_env sample_form_props
     = [SetChatBlocked ''conv1'' True,
        OpenPending (formId sample_env sample_form_props) sample_pending]"
  by code_simp

lemma upload_truthy: "toolConfig_truthy sample_env sample_form_props"
  by code_simp

lemma upload_cleanup:
  "cleanup_effect sample_env sample_form_props st
     = (if isSubmitted st then [] else [SetChatBlocked ''conv1'' False])"
  by (simp add: cleanup_effect_def upload_truthy sample_conv_key)

lemma upload_cancel_calls:
  "handleFormCancel sample_env sample_form_props
     = [MarkCancelled (formId sample_env sample_form_props), SubmitMessage cancel_text,
        SetChatBlocked ''conv1'' False]"
  by (simp add: handleFormCancel_def sample_conv_key)


lemmas page_eval =
  run_page_Cons run_page_Nil page_action_def empty_page_def empty_world_def prev_record_def
  thisFormState_def thisFormState_ref_def cleanup_deps_def

lemma upload_mounted_val:
  "upload_mounted
     = (\<lparr>trigger_prev = Some (trigger_deps sample_env sample_form_props),
         cleanup_prev = Some (upload_deps 1, sample_form_props, sample_pending)\<rparr>,
        run_page [SetChatBlocked ''conv1'' True,
                  OpenPending (formId sample_env sample_form_props) sample_pending,
                  SetChatBlocked ''conv1'' False] empty_page,
        [SetChatBlocked ''conv1'' True,
         OpenPending (formId sample_env sample_form_props) sample_pending,
         SetChatBlocked ''conv1'' False])"
proof -
  have wf: "written_at empty_page (formId sample_env sample_form_props) \<le> writes empty_page"
    by (simp add: empty_page_def)
  have st: "thisFormState sample_env sample_form_props (stores empty_page) = no_record"
    by (simp add: page_eval)
  show ?thesis
    unfolding upload_mounted_def mount_opens [OF upload_fires wf] st upload_cleanup
    by (simp add: page_eval no_record_def upload_deps_def)
qed

text \<open>After a store update of the form's record, a settled upload detector releases.\<close>

lemma upload_update:
  assumes pg: "submittedForms (stores pg) (formId sample_env sample_form_props) = Some r"
    and at: "written_at pg (formId sample_env sample_form_props) = m" and nm: "n \<noteq> m"
  shows "settle sample_env sample_form_props
           \<lparr>trigger_prev = Some (trigger_deps sample_env sample_form_props),
            cleanup_prev = Some (upload_deps n, sample_form_props, st0)\<rparr> pg
     = (\<lparr>trigger_prev = Some (trigger_deps sample_env sample_form_props),
         cleanup_prev = Some (upload_deps m, sample_form_props, r)\<rparr>,
        run_page (if isSubmitted st0 then [] else [SetChatBlocked ''conv1'' False]) pg,
        if isSubmitted st0 then [] else [SetChatBlocked ''conv1'' False])"
proof -
  have d: "upload_deps n \<noteq> cleanup_deps sample_env sample_form_props pg"
    using pg at nm by (simp add: upload_deps_def cleanup_deps_def thisFormState_ref_def)
  have e: "cleanup_deps sample_env sample_form_props pg = upload_deps m"
    using pg at by (simp add: upload_deps_def cleanup_deps_def thisFormState_ref_def)
  have s: "thisFormState sample_env sample_form_props (stores pg) = r"
    using pg by (simp add: thisFormState_def prev_record_def)
  show ?thesis
    using rerender_after_update [of "\<lparr>trigger_prev = Some (trigger_deps sample_env sample_form_props),
            cleanup_prev = Some (upload_deps n, sample_form_props, st0)\<rparr>" sample_env
            sample_form_props "upload_deps n" sample_form_props st0 pg] d
    by (simp add: e s upload_cleanup)
qed

lemma upload_quiet:
  assumes pg: "submittedForms (stores pg) (formId sample_env sample_form_props) = Some r"
    and at: "written_at pg (formId sample_env sample_form_props) = n"
  shows "settle sample_env sample_form_props
           \<lparr>trigger_prev = Some (trigger_deps sample_env sample_form_props),
            cleanup_prev = Some (upload_deps n, sample_form_props, st0)\<rparr> pg
     = (\<lparr>trigger_prev = Some (trigger_deps sample_env sample_form_props),
         cleanup_prev = Some (upload_deps n, sample_form_props, st0)\<rparr>, pg, [])"
proof -
  have e: "cleanup_deps sample_env sample_form_props pg = upload_deps n"
    using pg at by (simp add: upload_deps_def cleanup_deps_def thisFormState_ref_def)
  show ?thesis by (rule settle_idle) (simp_all add: e)
qed

lemma upload_cancel_settled_val:
  "upload_cancel_settled
     = (\<lparr>trigger_prev = Some (trigger_deps sample_env sample_form_props),
         cleanup_prev = Some (upload_deps 2, sample_form_props, upload_cancelled_record)\<rparr>,
        run_page [SetChatBlocked ''conv1'' False] upload_cancel_page,
        [SetChatBlocked ''conv1'' False])"
proof -
  have a: "submittedForms (stores upload_cancel_page) (formId sample_env sample_form_props)
             = Some upload_cancelled_record"
    by (simp add: upload_cancel_page_def upload_mounted_val upload_cancel_calls page_eval
          upload_cancelled_record_def)
  have b: "written_at upload_cancel_page (formId sample_env sample_form_props) = 2"
    by (simp add: upload_cancel_page_def upload_mounted_val upload_cancel_calls page_eval)
  have s: "isSubmitted sample_pending = False" by (simp add: sample_pending_def)
  show ?thesis
    unfolding upload_cancel_settled_def
    by (simp add: upload_mounted_val upload_update [OF a b] s)
qed

lemma upload_cancelled_val:
  "upload_cancelled
     = (\<lparr>trigger_prev = Some (trigger_deps sample_env sample_form_props),
         cleanup_prev = Some (upload_deps 2, sample_form_props, upload_cancelled_record)\<rparr>,
        run_page [SetChatBlocked ''conv1'' False, SetChatBlocked ''conv1'' False] upload_cancel_page,
        [MarkCancelled (formId sample_env sample_form_props), SubmitMessage cancel_text,
         SetChatBlocked ''conv1'' False, SetChatBlocked ''conv1'' False])"
proof -
  let ?pg = "run_page [SetChatBlocked ''conv1'' False, SetChatBlocked ''conv1'' False]
               upload_cancel_page"
  have a: "submittedForms (stores ?pg) (formId sample_env sample_form_props)
             = Some upload_cancelled_record"
    by (simp add: upload_cancel_page_def upload_mounted_val upload_cancel_calls page_eval
          upload_cancelled_record_def)
  have b: "written_at ?pg (formId sample_env sample_form_props) = 2"
    by (simp add: upload_cancel_page_def upload_mounted_val upload_cancel_calls page_eval)
  have c: "settle sample_env sample_form_props (fst upload_mounted)
             (run_page (until_await (handleFormCancel sample_env sample_form_props))
                (fst (snd upload_mounted))) = upload_cancel_settled"
    by (simp add: upload_cancel_settled_def upload_cancel_page_def)
  show ?thesis
    unfolding upload_cancelled_def after_handler_def c
    by (simp add: upload_cancel_settled_val upload_cancel_calls upload_quiet [OF a b]
          run_page_append [symmetric])
qed








text \<open>
  C5, on the upload form of conversation \<open>conv1\<close>, mounted and then cancelled. Before
  the cancel the record is pending and the lock is already free: the cleanup function,
  which depends on \<open>thisFormState\<close>, ran when the trigger stored the record. The cancel
  handler marks the record cancelled, sends the one fixed message and releases the lock;
  its store update makes React run the cleanup function again, so \<open>setChatBlocked\<close> is
  called with \<open>false\<close> twice in the episode. Afterwards the record is cancelled (its
  other fields kept), one message has been sent, and the lock is free.
\<close>

theorem cancel_releases_twice:
  "handleFormCancel sample_env sample_form_props
     = [MarkCancelled ''conv1-m1-render_add_crawl_config_form'',
        SubmitMessage
          (''I decided not to submit the form at this time. Let'' @ [CHR 0x27]
             @ ''s continue our conversation.''),
        SetChatBlocked ''conv1'' False]
   \<and> submittedForms (stores (fst (snd upload_mounted))) ''conv1-m1-render_add_crawl_config_form''
       = Some sample_pending
   \<and> isChatBlocked (stores (fst (snd upload_mounted))) ''conv1'' = Some False
   \<and> snd (snd upload_cancelled)
       = [MarkCancelled ''conv1-m1-render_add_crawl_config_form'',
          SubmitMessage
            (''I decided not to submit the form at this time. Let'' @ [CHR 0x27]
               @ ''s continue our conversation.''),
          SetChatBlocked ''conv1'' False, SetChatBlocked ''conv1'' False]
   \<and> filter is_lock_call (snd (snd upload_cancelled))
       = [SetChatBlocked ''conv1'' False, SetChatBlocked ''conv1'' False]
   \<and> submittedForms (stores (fst (snd upload_cancelled))) ''conv1-m1-render_add_crawl_config_form''
       = Some (sample_pending\<lparr>isCancelled := Some True\<rparr>)
   \<and> sent (stores (fst (snd upload_cancelled)))
       = [''I decided not to submit the form at this time. Let'' @ [CHR 0x27]
            @ ''s continue our conversation.'']
   \<and> isChatBlocked (stores (fst (snd upload_cancelled))) ''conv1'' = Some False"
proof -
  have h: "handleFormCancel sample_env sample_form_props
     = [MarkCancelled ''conv1-m1-render_add_crawl_config_form'',
        SubmitMessage
          (''I decided not to submit the form at this time. Let'' @ [CHR 0x27]
             @ ''s continue our conversation.''),
        SetChatBlocked ''conv1'' False]"
    by (simp add: upload_cancel_calls sample_formId cancel_text_def)
  have m: "submittedForms (stores (fst (snd upload_mounted))) ''conv1-m1-render_add_crawl_config_form''
       = Some sample_pending
     \<and> isChatBlocked (stores (fst (snd upload_mounted))) ''conv1'' = Some False"
    by (simp add: upload_mounted_val page_eval sample_formId)
  have c: "snd (snd upload_cancelled)
       = [MarkCancelled ''conv1-m1-render_add_crawl_config_form'',
          SubmitMessage
            (''I decided not to submit the form at this time. Let'' @ [CHR 0x27]
               @ ''s continue our conversation.''),
          SetChatBlocked ''conv1'' False, SetChatBlocked ''conv1'' False]"
    by (simp add: upload_cancelled_val sample_formId cancel_text_def)
  have l: "filter is_lock_call (snd (snd upload_cancelled))
       = [SetChatBlocked ''conv1'' False, SetChatBlocked ''conv1'' False]"
    unfolding c by simp
  have r: "submittedForms (stores (fst (snd upload_cancelled))) ''conv1-m1-render_add_crawl_config_form''
       = Some (sample_pending\<lparr>isCancelled := Some True\<rparr>)
     \<and> sent (stores (fst (snd upload_cancelled)))
       = [''I decided not to submit the form at this time. Let'' @ [CHR 0x27]
            @ ''s continue our conversation.'']
     \<and> isChatBlocked (stores (fst (snd upload_cancelled))) ''conv1'' = Some False"
    by (simp add: upload_cancelled_val upload_cancel_page_def upload_mounted_val
          upload_cancel_calls page_eval sample_formId cancel_text_def sample_pending_def)
  show ?thesis
    using h m c l r by simp
qed


lemma falsy_no_data: "empty_list_or_falsy_scalar v \<Longrightarrow> \<not> has_data v"
  by (cases v) simp_all

lemma empty_values_no_data:
  "list_all (\<lambda>kv. empty_list_or_falsy_scalar (snd kv)) al
   \<Longrightarrow> \<not> list_ex (\<lambda>kv. has_data (snd kv)) al"
  by (induction al) (simp_all add: falsy_no_data)

lemma empty_bundle_invalid:
  "list_all (\<lambda>kv. empty_list_or_falsy_scalar (snd kv)) al \<Longrightarrow> \<not> hasValidOptions (JObj al)"
  by (simp add: empty_values_no_data)

text \<open>
  C2 (as the code has it). For a tool call of a configured form type, a bundle whose
  every property is an empty list or a falsy scalar opens no form: the trigger makes no
  call, so no record is written and the blocked flag is not set.
\<close>

theorem validity_gate:
  assumes "toolConfig E p = Some cfg" and "tool_output p = Some out"
    and "extractOptions E cfg out = JObj al"
    and "list_all (\<lambda>kv. empty_list_or_falsy_scalar (snd kv)) al"
  shows "trigger_effect E p = [] \<and> run (trigger_on_render prev E p) w = w"
proof -
  have "\<not> hasValidOptions (extractOptions E cfg out)"
    using assms(3) empty_bundle_invalid [OF assms(4)] by simp
  then have "trigger_effect E p = []"
    using assms(1,2) by (simp add: trigger_effect_def)
  then show ?thesis by (simp add: trigger_on_render_def run_Nil)
qed

theorem validity_gate_witness:
  "toolConfig sample_env sample_outreach_props = Some Render_outreach_generate_form
   \<and> tool_output sample_outreach_props = Some ''{}''
   \<and> extractOptions sample_env Render_outreach_generate_form ''{}''
       = JObj [(''senders'', JArr []), (''lists'', JArr []), (''campaigns'', JArr []),
               (''templates'', JArr []), (''icps'', JArr [])]
   \<and> trigger_effect sample_env sample_outreach_props = []"
proof -
  have h1: "toolConfig sample_env sample_outreach_props = Some Render_outreach_generate_form"
    by code_simp
  have h2: "tool_output sample_outreach_props = Some ''{}''"
    by (simp add: sample_outreach_props_def sample_props_def)
  have h3: "extractOptions sample_env Render_outreach_generate_form ''{}''
       = JObj [(''senders'', JArr []), (''lists'', JArr []), (''campaigns'', JArr []),
               (''templates'', JArr []), (''icps'', JArr [])]"
    by code_simp
  have h4: "list_all (\<lambda>kv. empty_list_or_falsy_scalar (snd kv))
              [(''senders'', JArr []), (''lists'', JArr []), (''campaigns'', JArr []),
               (''templates'', JArr []), (''icps'', JArr [])]"
    by simp
  show ?thesis using h1 h2 h3 validity_gate [OF h1 h2 h3 h4] by simp
qed

text \<open>
  C2 as stated fails for the upload form: on an output that is no JSON its parser
  returns its empty bundle, whose one property is the empty object of prefilled
  parameters, and the form opens.
\<close>

theorem validity_gate_counterexample:
  "JSON_parse sample_env ''not json'' = None
   \<and> extractOptions sample_env Render_add_crawl_config_form ''not json''
       = JObj [(''prefilledParams'', JObj [])]
   \<and> isChatBlocked
         (run (trigger_effect sample_env
                 (sample_props ''render_add_crawl_config_form_mcp_srv'' ''not json'')) empty_world)
         ''conv1'' = Some True
   \<and> map_option isSubmitted
         (submittedForms
            (run (trigger_effect sample_env
                    (sample_props ''render_add_crawl_config_form_mcp_srv'' ''not json'')) empty_world)
            ''conv1-m1-render_add_crawl_config_form'') = Some False"
  by code_simp
































lemma find_by_id_objects:
  "list_all is_object xs \<Longrightarrow>
   find_by_id xs t = Some (case List.find (has_id t) xs of None \<Rightarrow> JUndef | Some x \<Rightarrow> x)"
proof (induction xs)
  case Nil
  then show ?case by simp
next
  case (Cons x xs)
  then obtain al where "x = JObj al" by (cases x) simp_all
  with Cons show ?case by (simp add: has_id_def get_opt_def)
qed

lemma found_is_object: "list_all is_object xs \<Longrightarrow> List.find P xs = Some x \<Longrightarrow> is_object x"
  by (induction xs) (auto split: if_splits)

lemma object_truthy: "is_object x \<Longrightarrow> truthy x"
  by (cases x) simp_all

lemma field_spread2:
  "field (spread_with data [(k1, v1), (k2, v2)]) k
     = (if k = k2 then v2 else if k = k1 then v1 else field data k)"
  by (simp add: spread_with_def field_def update_conv')

lemma field_spread4:
  "field (spread_with data [(k1, v1), (k2, v2), (k3, v3), (k4, v4)]) k
     = (if k = k4 then v4 else if k = k3 then v3 else if k = k2 then v2
        else if k = k1 then v1 else field data k)"
  by (simp add: spread_with_def field_def update_conv')

lemma websiteLabel_cases:
  "list_all is_object ws \<Longrightarrow>
   websiteLabel_of (case List.find (has_id t) ws of None \<Rightarrow> JUndef | Some x \<Rightarrow> x) t
     = (case List.find (has_id t) ws of
          None \<Rightarrow> t
        | Some w \<Rightarrow> JStr (to_str (get_opt w ''name'') @ '' ('' @ to_str (get_opt w ''url'') @ '')''))"
  by (auto simp: websiteLabel_of_def split: option.splits
           dest!: found_is_object object_truthy)

lemma crawlConfigLabel_cases:
  "list_all is_object cs \<Longrightarrow>
   crawlConfigLabel_of (case List.find (has_id t) cs of None \<Rightarrow> JUndef | Some x \<Rightarrow> x) t
     = (case List.find (has_id t) cs of
          None \<Rightarrow> if t = JStr ''default'' then JStr ''Default Configuration'' else t
        | Some c \<Rightarrow> get_opt c ''name'')"
proof (cases "List.find (has_id t) cs")
  case None
  then show ?thesis by (cases t) (simp_all add: crawlConfigLabel_of_def)
next
  case (Some c)
  assume "list_all is_object cs"
  then have "truthy c" using Some by (blast intro: object_truthy found_is_object)
  then show ?thesis using Some by (simp add: crawlConfigLabel_of_def)
qed

lemma senderLabel_cases:
  "list_all is_object ss \<Longrightarrow>
   senderLabel_of (case List.find (has_id t) ss of None \<Rightarrow> JUndef | Some x \<Rightarrow> x)
     = (case List.find (has_id t) ss of
          None \<Rightarrow> JUndef
        | Some s \<Rightarrow> JStr (to_str (get_opt s ''name'') @ '' (''
                          @ to_str (js_or (get_opt s ''occupation'') (JStr ''No title''))
                          @ '') at '' @ to_str (get_opt s ''company_name'')))"
  by (auto simp: senderLabel_of_def split: option.splits
           dest!: found_is_object object_truthy)

lemma listLabel_cases:
  "list_all is_object ls \<Longrightarrow>
   listLabel_of E (case List.find (has_id t) ls of None \<Rightarrow> JUndef | Some x \<Rightarrow> x)
     = (case List.find (has_id t) ls of
          None \<Rightarrow> JUndef
        | Some l \<Rightarrow> JStr (to_str (get_opt l ''list_name'') @ '' (''
                          @ Math_floor E (get_opt l ''leads_count'') @ '' contacts)''))"
  by (auto simp: listLabel_of_def split: option.splits
           dest!: found_is_object object_truthy)

lemma name_cases:
  "get_opt (case List.find P xs of None \<Rightarrow> JUndef | Some x \<Rightarrow> x) ''name''
     = (case List.find P xs of None \<Rightarrow> JUndef | Some x \<Rightarrow> get_opt x ''name'')"
  by (simp add: get_opt_def split: option.splits)

lemma stored_options_object:
  "options st = JObj opts \<Longrightarrow> get_opt (stored_options st) k = field opts k"
  by (simp add: stored_options_def js_or_def get_opt_def field_def)

text \<open>
  C8 (as the code has it). With the option lists stored at pending time (lists of
  objects): for the crawl form, \<open>websiteLabel\<close> is \<open>name (url)\<close> of the first website whose
  id is the submitted \<open>website_id\<close> and the raw \<open>website_id\<close> when there is none, and
  \<open>crawlConfigLabel\<close> is the name of the first matching configuration and otherwise
  \<open>Default Configuration\<close> for the id \<open>default\<close> and the raw id for any other. For the
  outreach form, \<open>senderLabel\<close> and \<open>listLabel\<close> are strings built from the first match,
  \<open>campaignLabel\<close> and \<open>templateLabel\<close> are its name, and each of the four is \<open>undefined\<close>
  when nothing matches. The form types other than these two and the upload form store
  the submitted data as it is, with no label.
\<close>

theorem label_resolution:
  "(options st = JObj opts
      \<and> field opts ''websites'' = JArr ws \<and> list_all is_object ws
      \<and> field opts ''crawlConfigs'' = JArr cs \<and> list_all is_object cs \<longrightarrow>
      (\<exists>labelled.
         submittedDataWithLabels E (Some ''crawl'') st data = Some labelled
         \<and> field labelled ''websiteLabel''
             = (case List.find (has_id (field data ''website_id'')) ws of
                  None \<Rightarrow> field data ''website_id''
                | Some w \<Rightarrow> JStr (to_str (get_opt w ''name'') @ '' ('' @ to_str (get_opt w ''url'')
                                  @ '')''))
         \<and> field labelled ''crawlConfigLabel''
             = (case List.find (has_id (field data ''crawl_config_id'')) cs of
                  None \<Rightarrow> if field data ''crawl_config_id'' = JStr ''default''
                         then JStr ''Default Configuration'' else field data ''crawl_config_id''
                | Some c \<Rightarrow> get_opt c ''name'')))
   \<and> (options st = JObj opts
      \<and> field opts ''senders'' = JArr ss \<and> list_all is_object ss
      \<and> field opts ''lists'' = JArr ls \<and> list_all is_object ls
      \<and> field opts ''campaigns'' = JArr cas \<and> list_all is_object cas
      \<and> field opts ''templates'' = JArr ts \<and> list_all is_object ts \<longrightarrow>
      (\<exists>labelled.
         submittedDataWithLabels E (Some ''outreach'') st data = Some labelled
         \<and> field labelled ''senderLabel''
             = (case List.find (has_id (field data ''sender_id'')) ss of
                  None \<Rightarrow> JUndef
                | Some s \<Rightarrow> JStr (to_str (get_opt s ''name'') @ '' (''
                                  @ to_str (js_or (get_opt s ''occupation'') (JStr ''No title''))
                                  @ '') at '' @ to_str (get_opt s ''company_name'')))
         \<and> field labelled ''listLabel''
             = (case List.find (has_id (field data ''list_id'')) ls of
                  None \<Rightarrow> JUndef
                | Some l \<Rightarrow> JStr (to_str (get_opt l ''list_name'') @ '' (''
                                  @ Math_floor E (get_opt l ''leads_count'') @ '' contacts)''))
         \<and> field labelled ''campaignLabel''
             = (case List.find (has_id (field data ''campaign_id'')) cas of
                  None \<Rightarrow> JUndef | Some c \<Rightarrow> get_opt c ''name'')
         \<and> field labelled ''templateLabel''
             = (case List.find (has_id (field data ''template_id'')) ts of
                  None \<Rightarrow> JUndef | Some t \<Rightarrow> get_opt t ''name'')))
   \<and> (ft \<noteq> Some ''outreach'' \<and> ft \<noteq> Some ''crawl'' \<and> ft \<noteq> Some ''add_crawl_config'' \<longrightarrow>
        submittedDataWithLabels E ft st data = Some data)"
proof (intro conjI impI)
  assume h: "options st = JObj opts
      \<and> field opts ''websites'' = JArr ws \<and> list_all is_object ws
      \<and> field opts ''crawlConfigs'' = JArr cs \<and> list_all is_object cs"
  then have o: "\<And>k. get_opt (stored_options st) k = field opts k"
    by (simp add: stored_options_object)
  from h have w: "list_all is_object ws" and c: "list_all is_object cs" by simp_all
  have eq: "submittedDataWithLabels E (Some ''crawl'') st data
     = Some (spread_with data
         [(''websiteLabel'',
           websiteLabel_of (case List.find (has_id (field data ''website_id'')) ws of
                              None \<Rightarrow> JUndef | Some x \<Rightarrow> x) (field data ''website_id'')),
          (''crawlConfigLabel'',
           crawlConfigLabel_of (case List.find (has_id (field data ''crawl_config_id'')) cs of
                                  None \<Rightarrow> JUndef | Some x \<Rightarrow> x)
             (field data ''crawl_config_id''))])"
    using h by (simp add: submittedDataWithLabels_def o find_by_id_objects)
  show "\<exists>labelled.
         submittedDataWithLabels E (Some ''crawl'') st data = Some labelled
         \<and> field labelled ''websiteLabel''
             = (case List.find (has_id (field data ''website_id'')) ws of
                  None \<Rightarrow> field data ''website_id''
                | Some w \<Rightarrow> JStr (to_str (get_opt w ''name'') @ '' ('' @ to_str (get_opt w ''url'')
                                  @ '')''))
         \<and> field labelled ''crawlConfigLabel''
             = (case List.find (has_id (field data ''crawl_config_id'')) cs of
                  None \<Rightarrow> if field data ''crawl_config_id'' = JStr ''default''
                         then JStr ''Default Configuration'' else field data ''crawl_config_id''
                | Some c \<Rightarrow> get_opt c ''name'')"
    unfolding eq
    by (simp add: field_spread2 websiteLabel_cases [OF w] crawlConfigLabel_cases [OF c])
next
  assume h: "options st = JObj opts
      \<and> field opts ''senders'' = JArr ss \<and> list_all is_object ss
      \<and> field opts ''lists'' = JArr ls \<and> list_all is_object ls
      \<and> field opts ''campaigns'' = JArr cas \<and> list_all is_object cas
      \<and> field opts ''templates'' = JArr ts \<and> list_all is_object ts"
  then have o: "\<And>k. get_opt (stored_options st) k = field opts k"
    by (simp add: stored_options_object)
  from h have s: "list_all is_object ss" and l: "list_all is_object ls" by simp_all
  have eq: "submittedDataWithLabels E (Some ''outreach'') st data
     = Some (spread_with data
         [(''senderLabel'',
           senderLabel_of (case List.find (has_id (field data ''sender_id'')) ss of
                             None \<Rightarrow> JUndef | Some x \<Rightarrow> x)),
          (''listLabel'',
           listLabel_of E (case List.find (has_id (field data ''list_id'')) ls of
                             None \<Rightarrow> JUndef | Some x \<Rightarrow> x)),
          (''campaignLabel'',
           get_opt (case List.find (has_id (field data ''campaign_id'')) cas of
                      None \<Rightarrow> JUndef | Some x \<Rightarrow> x) ''name''),
          (''templateLabel'',
           get_opt (case List.find (has_id (field data ''template_id'')) ts of
                      None \<Rightarrow> JUndef | Some x \<Rightarrow> x) ''name'')])"
    using h by (simp add: submittedDataWithLabels_def o find_by_id_objects)
  show "\<exists>labelled.
         submittedDataWithLabels E (Some ''outreach'') st data = Some labelled
         \<and> field labelled ''senderLabel''
             = (case List.find (has_id (field data ''sender_id'')) ss of
                  None \<Rightarrow> JUndef
                | Some s \<Rightarrow> JStr (to_str (get_opt s ''name'') @ '' (''
                                  @ to_str (js_or (get_opt s ''occupation'') (JStr ''No title''))
                                  @ '') at '' @ to_str (get_opt s ''company_name'')))
         \<and> field labelled ''listLabel''
             = (case List.find (has_id (field data ''list_id'')) ls of
                  None \<Rightarrow> JUndef
                | Some l \<Rightarrow> JStr (to_str (get_opt l ''list_name'') @ '' (''
                                  @ Math_floor E (get_opt l ''leads_count'') @ '' contacts)''))
         \<and> field labelled ''campaignLabel''
             = (case List.find (has_id (field data ''campaign_id'')) cas of
                  None \<Rightarrow> JUndef | Some c \<Rightarrow> get_opt c ''name'')
         \<and> field labelled ''templateLabel''
             = (case List.find (has_id (field data ''template_id'')) ts of
                  None \<Rightarrow> JUndef | Some t \<Rightarrow> get_opt t ''name'')"
    unfolding eq
    by (simp add: field_spread4 senderLabel_cases [OF s] listLabel_cases [OF l] name_cases)
next
  assume "ft \<noteq> Some ''outreach'' \<and> ft \<noteq> Some ''crawl'' \<and> ft \<noteq> Some ''add_crawl_config''"
  then show "submittedDataWithLabels E ft st data = Some data"
    by (simp add: submittedDataWithLabels_def)
qed

theorem label_resolution_witness:
  "map_option (\<lambda>l. field l ''websiteLabel'')
       (submittedDataWithLabels sample_env (Some ''crawl'') sample_crawl_state
          [(''website_id'', JStr ''w1''), (''crawl_config_id'', JStr ''default'')])
     = Some (JStr ''Acme (acme.com)'')
   \<and> map_option (\<lambda>l. field l ''crawlConfigLabel'')
       (submittedDataWithLabels sample_env (Some ''crawl'') sample_crawl_state
          [(''website_id'', JStr ''w1''), (''crawl_config_id'', JStr ''default'')])
     = Some (JStr ''Default Configuration'')
   \<and> map_option (\<lambda>l. field l ''websiteLabel'')
       (submittedDataWithLabels sample_env (Some ''crawl'') sample_crawl_state
          [(''website_id'', JStr ''w9''), (''crawl_config_id'', JStr ''c9'')])
     = Some (JStr ''w9'')
   \<and> map_option (\<lambda>l. field l ''senderLabel'')
       (submittedDataWithLabels sample_env (Some ''outreach'') sample_outreach_state
          [(''sender_id'', JStr ''s1'')])
     = Some (JStr ''Ann (CEO) at Acme'')
   \<and> submittedDataWithLabels sample_env (Some ''site_keyword'') sample_crawl_state
        [(''website_id'', JStr ''w1'')] = Some [(''website_id'', JStr ''w1'')]"
proof -
  have hc: "options sample_crawl_state = JObj sample_crawl_bundle
      \<and> field sample_crawl_bundle ''websites'' = JArr sample_websites
      \<and> list_all is_object sample_websites
      \<and> field sample_crawl_bundle ''crawlConfigs'' = JArr [] \<and> list_all is_object []"
    by (simp add: sample_crawl_state_def sample_crawl_bundle_def sample_websites_def field_def)
  have ho: "options sample_outreach_state = JObj sample_outreach_bundle
      \<and> field sample_outreach_bundle ''senders'' = JArr sample_senders
      \<and> list_all is_object sample_senders
      \<and> field sample_outreach_bundle ''lists'' = JArr [] \<and> list_all is_object []
      \<and> field sample_outreach_bundle ''campaigns'' = JArr [] \<and> list_all is_object []
      \<and> field sample_outreach_bundle ''templates'' = JArr [] \<and> list_all is_object []"
    by (simp add: sample_outreach_state_def sample_outreach_bundle_def sample_senders_def field_def)
  have hf: "Some ''site_keyword'' \<noteq> Some ''outreach'' \<and> Some ''site_keyword'' \<noteq> Some ''crawl''
            \<and> Some ''site_keyword'' \<noteq> Some ''add_crawl_config''"
    by simp
  have f1: "List.find (has_id (JStr ''w1'')) sample_websites
              = Some (JObj [(''id'', JStr ''w1''), (''name'', JStr ''Acme''),
                            (''url'', JStr ''acme.com'')])"
    by code_simp
  have f2: "List.find (has_id (JStr ''w9'')) sample_websites = None"
    by code_simp
  have f3: "List.find (has_id (JStr ''s1'')) sample_senders
              = Some (JObj [(''id'', JStr ''s1''), (''name'', JStr ''Ann''),
                            (''occupation'', JStr ''CEO''), (''company_name'', JStr ''Acme''),
                            (''sender_group_id'', JStr ''g1'')])"
    by code_simp
  from label_resolution
         [where st = sample_crawl_state and opts = sample_crawl_bundle and ws = sample_websites
            and cs = "[]" and E = sample_env
            and data = "[(''website_id'', JStr ''w1''), (''crawl_config_id'', JStr ''default'')]",
          THEN conjunct1, rule_format, OF hc]
  have a: "map_option (\<lambda>l. field l ''websiteLabel'')
       (submittedDataWithLabels sample_env (Some ''crawl'') sample_crawl_state
          [(''website_id'', JStr ''w1''), (''crawl_config_id'', JStr ''default'')])
     = Some (JStr ''Acme (acme.com)'')
   \<and> map_option (\<lambda>l. field l ''crawlConfigLabel'')
       (submittedDataWithLabels sample_env (Some ''crawl'') sample_crawl_state
          [(''website_id'', JStr ''w1''), (''crawl_config_id'', JStr ''default'')])
     = Some (JStr ''Default Configuration'')"
    by (auto simp: field_def f1 get_opt_def)
  from label_resolution
         [where st = sample_crawl_state and opts = sample_crawl_bundle and ws = sample_websites
            and cs = "[]" and E = sample_env
            and data = "[(''website_id'', JStr ''w9''), (''crawl_config_id'', JStr ''c9'')]",
          THEN conjunct1, rule_format, OF hc]
  have b: "map_option (\<lambda>l. field l ''websiteLabel'')
       (submittedDataWithLabels sample_env (Some ''crawl'') sample_crawl_state
          [(''website_id'', JStr ''w9''), (''crawl_config_id'', JStr ''c9'')])
     = Some (JStr ''w9'')"
    by (auto simp: field_def f2)
  from label_resolution
         [where st = sample_outreach_state and opts = sample_outreach_bundle
            and ss = sample_senders and ls = "[]" and cas = "[]" and ts = "[]"
            and E = sample_env and data = "[(''sender_id'', JStr ''s1'')]",
          THEN conjunct2, THEN conjunct1, rule_format, OF ho]
  have c: "map_option (\<lambda>l. field l ''senderLabel'')
       (submittedDataWithLabels sample_env (Some ''outreach'') sample_outreach_state
          [(''sender_id'', JStr ''s1'')])
     = Some (JStr ''Ann (CEO) at Acme'')"
    by (auto simp: field_def f3 get_opt_def js_or_def)
  from label_resolution
         [where ft = "Some ''site_keyword''" and E = sample_env and st = sample_crawl_state
            and data = "[(''website_id'', JStr ''w1'')]",
          THEN conjunct2, THEN conjunct2, rule_format, OF hf]
  have d: "submittedDataWithLabels sample_env (Some ''site_keyword'') sample_crawl_state
        [(''website_id'', JStr ''w1'')] = Some [(''website_id'', JStr ''w1'')]" .
  show ?thesis using a b c d by (intro conjI) simp_all
qed

text \<open>
  C8 as stated fails for the outreach form: a sender id that matches no option resolves
  to \<open>undefined\<close>, not to the raw id.
\<close>

theorem label_resolution_counterexample:
  "find_by_id sample_senders (JStr ''s9'') = Some JUndef
   \<and> map_option (\<lambda>l. field l ''senderLabel'')
       (submittedDataWithLabels sample_env (Some ''outreach'') sample_outreach_state
          [(''sender_id'', JStr ''s9'')])
     = Some JUndef
   \<and> JUndef \<noteq> JStr ''s9''"
  by code_simp

end
